theory Spec2Isabelle
  imports Complex_Main "HOL-Library.AList"
begin

section \<open>Numbers, rounding and errors\<close>

text \<open>
  The broker core is JavaScript. Its numbers are modelled as exact reals: there is no
  NaN, no infinity and no binary rounding error in the model, only the decimal rounding
  that the source asks for with \<open>toFixed(6)\<close>. Fields that the source fills from
  caller input with \<open>Number(...)\<close> keep the two non-numeric cases (\<open>Null\<close>, \<open>NaN\<close>)
  in the type \<open>jsnum\<close>. Timestamp strings of orders, fills and quotes are labels
  without effect on the accounting and are left out of the records; of an identifier the
  random part is kept, with the draw that it consumes. Calls are taken one at a time (no
  interleaving at the \<open>await\<close> points). The broker is modelled on the replay provider;
  the live provider of the source throws on every call. An exception ends the modelled
  call with an error value; what the interrupted call had already written is not kept.
\<close>

datatype error = UnknownSymbol | TypeError

text \<open>
  \<open>roundMoney(value) = Number(value.toFixed(6))\<close>: \<open>toFixed\<close> takes the sign off,
  picks the integer \<open>n\<close> with \<open>n / 10^6\<close> closest to the magnitude (the larger one on
  a tie) and puts the sign back. The model has the 6-decimal value itself where the
  source has the double nearest to it, so at or next to a rounding tie the two can fall
  on different sides; a value of at most 6 decimals is returned as it is by both.
\<close>

definition roundMoney :: "real \<Rightarrow> real" where
  "roundMoney v =
     (if v < 0 then - real_of_int \<lfloor>- v * 1000000 + 1 / 2\<rfloor> / 1000000
      else real_of_int \<lfloor>v * 1000000 + 1 / 2\<rfloor> / 1000000)"

datatype jsnum = Null | NaN | Num real

text \<open>\<open>x > 0\<close> for a possibly non-numeric \<open>x\<close>: \<open>null\<close> converts to 0, NaN compares false.\<close>

fun js_positive :: "jsnum \<Rightarrow> bool" where
  "js_positive (Num x) = (0 < x)"
| "js_positive Null = False"
| "js_positive NaN = False"

text \<open>\<open>a <= x\<close> and \<open>a >= x\<close> for a number \<open>a\<close> and a possibly non-numeric \<open>x\<close>.\<close>

fun js_le :: "real \<Rightarrow> jsnum \<Rightarrow> bool" where
  "js_le a (Num x) = (a \<le> x)"
| "js_le a Null = (a \<le> 0)"
| "js_le a NaN = False"

fun js_ge :: "real \<Rightarrow> jsnum \<Rightarrow> bool" where
  "js_ge a (Num x) = (a \<ge> x)"
| "js_ge a Null = (a \<ge> 0)"
| "js_ge a NaN = False"

text \<open>The numeric value of a field once validation has shown it to be a number.\<close>

fun num_val :: "jsnum \<Rightarrow> real" where
  "num_val (Num x) = x"
| "num_val Null = 0"
| "num_val NaN = 0"


section \<open>Replay market data\<close>

record entry =
  e_spreadBps :: real
  e_series :: "real list"
  e_index :: nat

record quote =
  q_symbol :: string
  q_bid :: real
  q_ask :: real
  q_mid :: real
  q_spreadBps :: real
  q_volatilityProxy :: real

type_synonym symbols = "string \<rightharpoonup> entry"

text \<open>
  The constructor of \<open>ReplayMarketDataService\<close>: every dataset entry gets its own spread
  or the default one, and starts at index 0.
\<close>

definition newReplay :: "(string \<times> real list \<times> real option) list \<Rightarrow> real \<Rightarrow> symbols" where
  "newReplay dataset defaultSpreadBps =
     map_of (map (\<lambda>(symbol, series, spread).
                    (symbol, \<lparr>e_spreadBps = (case spread of None \<Rightarrow> defaultSpreadBps | Some s \<Rightarrow> s),
                              e_series = series, e_index = 0\<rparr>)) (rev dataset))"

text \<open>
  \<open>computeVolatilityProxy\<close>. It is only called with \<open>index < length series\<close>. For a
  window of mean 0 the source divides by zero (its result is infinite or NaN); the
  model is meant for price series, whose values are positive.
\<close>

definition computeVolatilityProxy :: "real list \<Rightarrow> nat \<Rightarrow> real" where
  "computeVolatilityProxy series index =
     (let start = index - 4;
          window = map (\<lambda>i. series ! i) [start ..< index + 1]
      in if length window < 2 then 1 / 1000
         else
           let mean = sum_list window / real (length window);
               variance = sum_list (map (\<lambda>v. (v - mean)\<^sup>2) window) / real (length window)
           in max (sqrt variance / mean) (1 / 1000))"

text \<open>
  \<open>#quote(symbol, advance)\<close>. An unknown symbol throws. Reading \<open>series[index]\<close> out of
  range gives \<open>undefined\<close>, on which \<open>mid.toFixed\<close> throws a TypeError before the cursor
  is touched. The stored spread is never undefined, so \<open>entry.spreadBps ?? default\<close> is
  the stored spread.
\<close>

definition quote :: "symbols \<Rightarrow> string \<Rightarrow> bool \<Rightarrow> error + (quote \<times> symbols)" where
  "quote syms symbol advance =
     (case syms symbol of
        None \<Rightarrow> Inl UnknownSymbol
      | Some entry \<Rightarrow>
          if e_index entry < length (e_series entry) then
            let mid = e_series entry ! e_index entry;
                spreadBps = e_spreadBps entry;
                halfSpread = (mid * spreadBps) / 10000 / 2;
                bid = roundMoney (mid - halfSpread);
                ask = roundMoney (mid + halfSpread);
                q = \<lparr>q_symbol = symbol, q_bid = bid, q_ask = ask, q_mid = roundMoney mid,
                     q_spreadBps = spreadBps,
                     q_volatilityProxy = computeVolatilityProxy (e_series entry) (e_index entry)\<rparr>
            in Inr (q, if advance
                       then syms(symbol \<mapsto> entry\<lparr>e_index := (e_index entry + 1) mod length (e_series entry)\<rparr>)
                       else syms)
          else Inl TypeError)"

definition getQuote :: "symbols \<Rightarrow> string \<Rightarrow> error + (quote \<times> symbols)" where
  "getQuote syms symbol = quote syms symbol True"

definition peekQuote :: "symbols \<Rightarrow> string \<Rightarrow> error + (quote \<times> symbols)" where
  "peekQuote syms symbol = quote syms symbol False"


section \<open>Configuration, platform and account state\<close>

text \<open>
  The configuration object (its defaults come from \<open>config.js\<close>) is a parameter of every operation.
\<close>

record config =
  enforceMarketHours :: bool
  marketOpenHour :: int
  marketOpenMinute :: int
  marketCloseHour :: int
  marketCloseMinute :: int
  commissionPerTrade :: real
  feeRateBps :: real
  baseSlippageBps :: real
  sizeImpactBps :: real
  randomSlippageBps :: real
  initialMarginLong :: real
  initialMarginShort :: real
  maintenanceMarginLong :: real
  maintenanceMarginShort :: real
  settlementDaysEquities :: int
  shortBorrowDailyRate :: real
  forceLiquidationEnabled :: bool

text \<open>
  What the program reads from outside: the seeded random stream (whatever \<open>createSeededRng\<close>
  produces, so the stream is a parameter), the wall clock in
  milliseconds since the epoch, one reading per \<open>new Date()\<close> that the accounting
  depends on, and the offset of local time (daylight saving changes are not modelled).
  The world holds the replay cursors and counts the draws and clock readings made so far.
\<close>

record platform =
  rng :: "nat \<Rightarrow> real"
  clock :: "nat \<Rightarrow> int"
  tzOffsetMs :: int

record world =
  w_symbols :: symbols
  w_rngCalls :: nat
  w_clockReads :: nat

definition nextRandom :: "platform \<Rightarrow> world \<Rightarrow> real \<times> world" where
  "nextRandom pf w = (rng pf (w_rngCalls w), w\<lparr>w_rngCalls := Suc (w_rngCalls w)\<rparr>)"

definition newDate :: "platform \<Rightarrow> world \<Rightarrow> int \<times> world" where
  "newDate pf w = (clock pf (w_clockReads w), w\<lparr>w_clockReads := Suc (w_clockReads w)\<rparr>)"

definition getDay :: "platform \<Rightarrow> int \<Rightarrow> int" where
  "getDay pf t = ((t + tzOffsetMs pf) div 86400000 + 4) mod 7"

definition getHours :: "platform \<Rightarrow> int \<Rightarrow> int" where
  "getHours pf t = ((t + tzOffsetMs pf) div 3600000) mod 24"

definition getMinutes :: "platform \<Rightarrow> int \<Rightarrow> int" where
  "getMinutes pf t = ((t + tzOffsetMs pf) div 60000) mod 60"

text \<open>\<open>toIsoDate\<close>: the UTC calendar day, kept as a day number instead of a string.\<close>

definition toIsoDate :: "int \<Rightarrow> int" where
  "toIsoDate t = t div 86400000"

datatype status = OPEN | FILLED | REJECTED | CANCELED

datatype direction = DEBIT | CREDIT

datatype order_id = OrdId int | MARGINCALL

record position =
  p_symbol :: string
  p_quantity :: real
  p_avgPrice :: real

record settlement =
  s_amount :: real
  s_direction :: direction
  s_settleAt :: int
  s_symbol :: string

record order =
  o_id :: order_id
  o_accountId :: int
  o_symbol :: string
  o_type :: string
  o_side :: string
  o_tif :: string
  o_quantity :: jsnum
  o_limitPrice :: jsnum
  o_stopPrice :: jsnum
  o_status :: status
  o_reason :: "string option"
  o_fillPrice :: "real option"
  o_fees :: real
  o_triggerState :: "string option"
  o_effectiveType :: "string option"

record fill =
  f_id :: int
  f_orderId :: order_id
  f_accountId :: int
  f_symbol :: string
  f_side :: string
  f_quantity :: real
  f_price :: real
  f_notional :: real
  f_fees :: real

text \<open>
  \<open>positions\<close> is a JavaScript object used as a dictionary; \<open>Object.values\<close> lists it
  in insertion order (symbols are not integer-like keys), so it is an association list:
  assignment replaces in place or appends, \<open>delete\<close> removes.
\<close>

record account =
  a_id :: int
  a_settledCash :: real
  a_unsettledCash :: real
  a_reservedCash :: real
  a_feesDue :: real
  a_positions :: "(string \<times> position) list"
  a_orders :: "order list"
  a_fills :: "fill list"
  a_pendingSettlements :: "settlement list"
  a_lastBorrowFeeDate :: int

definition createAccount :: "platform \<Rightarrow> real \<Rightarrow> world \<Rightarrow> account \<times> world" where
  "createAccount pf initialCapital w =
     (let (r, w1) = nextRandom pf w;
          (now, w2) = newDate pf w1
      in (\<lparr>a_id = \<lfloor>r * 10000\<rfloor>, a_settledCash = roundMoney initialCapital,
           a_unsettledCash = 0, a_reservedCash = 0, a_feesDue = 0, a_positions = [],
           a_orders = [], a_fills = [], a_pendingSettlements = [],
           a_lastBorrowFeeDate = toIsoDate now\<rparr>, w2))"


section \<open>Order intake helpers\<close>

record rawOrder =
  r_symbol :: string
  r_type :: string
  r_side :: string
  r_tif :: string
  r_quantity :: jsnum
  r_limitPrice :: jsnum
  r_stopPrice :: jsnum
  r_bypassMarginCheck :: bool

record normOrder =
  n_type :: string
  n_side :: string
  n_tif :: string
  n_quantity :: jsnum
  n_limitPrice :: jsnum
  n_stopPrice :: jsnum
  n_symbol :: string

text \<open>ASCII letters only; an absent string field is the empty string.\<close>

definition toUpperCase :: "string \<Rightarrow> string" where
  "toUpperCase s =
     map (\<lambda>c. let n = (of_char c :: nat) in if 97 \<le> n \<and> n \<le> 122 then char_of (n - 32) else c) s"

text \<open>
  \<open>Number(input.quantity)\<close> turns \<open>null\<close> into 0 and anything non-numeric into NaN;
  the two prices stay \<open>null\<close> when absent.
\<close>

definition normalizeOrderInput :: "rawOrder \<Rightarrow> normOrder" where
  "normalizeOrderInput input =
     \<lparr>n_type = toUpperCase (r_type input),
      n_side = toUpperCase (r_side input),
      n_tif = toUpperCase (if r_tif input = [] then ''DAY'' else r_tif input),
      n_quantity = (case r_quantity input of Null \<Rightarrow> Num 0 | x \<Rightarrow> x),
      n_limitPrice = r_limitPrice input,
      n_stopPrice = r_stopPrice input,
      n_symbol = toUpperCase (r_symbol input)\<rparr>"

definition isMarketOpen :: "config \<Rightarrow> platform \<Rightarrow> int \<Rightarrow> bool" where
  "isMarketOpen cfg pf now =
     (if \<not> enforceMarketHours cfg then True
      else
        let day = getDay pf now in
        if day = 0 \<or> day = 6 then False
        else
          let openMinutes = marketOpenHour cfg * 60 + marketOpenMinute cfg;
              closeMinutes = marketCloseHour cfg * 60 + marketCloseMinute cfg;
              currentMinutes = getHours pf now * 60 + getMinutes pf now
          in currentMinutes \<ge> openMinutes \<and> currentMinutes \<le> closeMinutes)"

definition VALID_TYPES :: "string set" where
  "VALID_TYPES = {''MARKET'', ''LIMIT'', ''STOP'', ''STOP_LIMIT''}"

definition VALID_SIDES :: "string set" where
  "VALID_SIDES = {''BUY'', ''SELL'', ''SELL_SHORT'', ''BUY_TO_COVER''}"

definition VALID_TIFS :: "string set" where
  "VALID_TIFS = {''DAY'', ''GTC'', ''IOC''}"

definition validateOrderByType :: "normOrder \<Rightarrow> string option" where
  "validateOrderByType order =
     (if n_type order \<notin> VALID_TYPES then Some ''unsupported order type''
      else if n_side order \<notin> VALID_SIDES then Some ''unsupported side''
      else if n_tif order \<notin> VALID_TIFS then Some ''unsupported tif''
      else if \<not> js_positive (n_quantity order) then Some ''invalid quantity''
      else if n_type order = ''LIMIT'' \<and> \<not> js_positive (n_limitPrice order)
        then Some ''invalid limit price''
      else if n_type order = ''STOP'' \<and> \<not> js_positive (n_stopPrice order)
        then Some ''invalid stop price''
      else if n_type order = ''STOP_LIMIT''
              \<and> (\<not> js_positive (n_stopPrice order) \<or> \<not> js_positive (n_limitPrice order))
        then Some ''invalid stop/limit prices''
      else if n_type order = ''MARKET'' \<and> n_tif order = ''GTC''
        then Some ''unsupported order type/tif combination''
      else None)"

definition calcFees :: "config \<Rightarrow> real \<Rightarrow> real" where
  "calcFees cfg notional =
     (let rateFee = notional * (feeRateBps cfg / 10000)
      in roundMoney (commissionPerTrade cfg + rateFee))"

definition calcSlippageBps :: "config \<Rightarrow> platform \<Rightarrow> world \<Rightarrow> real \<Rightarrow> real \<Rightarrow> real \<times> world" where
  "calcSlippageBps cfg pf w quantity volatilityProxy =
     (let (random, w1) = nextRandom pf w;
          sizeTerm = log 10 (1 + quantity) * sizeImpactBps cfg;
          volTerm = volatilityProxy * 10000 * (5 / 100)
      in (baseSlippageBps cfg + sizeTerm + volTerm + random * randomSlippageBps cfg, w1))"

definition applyPriceImpact :: "real \<Rightarrow> bool \<Rightarrow> real \<Rightarrow> real" where
  "applyPriceImpact basePrice isBuy slippageBps =
     (let direction = (if isBuy then 1 else - 1);
          impacted = basePrice * (1 + (direction * slippageBps) / 10000)
      in roundMoney impacted)"

definition sideIsBuy :: "string \<Rightarrow> bool" where
  "sideIsBuy side = (side = ''BUY'' \<or> side = ''BUY_TO_COVER'')"

text \<open>
  \<open>updateSignedPosition\<close> returns the pair \<open>(quantity, avgPrice)\<close>. With
  \<open>currentQty = 0\<close> and \<open>deltaQty = 0\<close> the source divides 0 by 0; validation lets no
  zero quantity through, so the case does not arise from \<open>placeOrder\<close>.
\<close>

definition updateSignedPosition :: "position option \<Rightarrow> real \<Rightarrow> real \<Rightarrow> real \<times> real" where
  "updateSignedPosition existing deltaQty fillPrice =
     (let currentQty = (case existing of None \<Rightarrow> 0 | Some e \<Rightarrow> p_quantity e);
          currentAvg = (case existing of None \<Rightarrow> fillPrice | Some e \<Rightarrow> p_avgPrice e);
          nextQty = currentQty + deltaQty
      in if currentQty = 0 \<or> sgn currentQty = sgn deltaQty then
           let newQty = currentQty + deltaQty;
               weighted = (\<bar>currentQty\<bar> * currentAvg + \<bar>deltaQty\<bar> * fillPrice) / \<bar>newQty\<bar>
           in (roundMoney newQty, roundMoney weighted)
         else if nextQty = 0 then (0, 0)
         else if sgn currentQty = sgn nextQty then (roundMoney nextQty, roundMoney currentAvg)
         else (roundMoney nextQty, roundMoney fillPrice))"


section \<open>Applying a trade\<close>

text \<open>
  \<open>nextBusinessDay\<close>: \<open>setDate(getDate() + 1)\<close> moves the date one local day on, that
  is 86400000 ms in a time zone of fixed offset (a daylight-saving change, which makes a
  local day an hour shorter or longer, is not modelled); only days other than Sunday (0)
  and Saturday (6) count.
\<close>

function nextBusinessDay :: "platform \<Rightarrow> int \<Rightarrow> int \<Rightarrow> int" where
  "nextBusinessDay pf next remaining =
     (if remaining > 0 then
        let next' = next + 86400000;
            day = getDay pf next'
        in if day \<noteq> 0 \<and> day \<noteq> 6 then nextBusinessDay pf next' (remaining - 1)
           else nextBusinessDay pf next' remaining
      else next)"
  by pat_completeness auto

definition positionsDelete :: "string \<Rightarrow> (string \<times> position) list \<Rightarrow> (string \<times> position) list" where
  "positionsDelete symbol ps = AList.delete symbol ps"

definition positionsSet :: "string \<Rightarrow> position \<Rightarrow> (string \<times> position) list \<Rightarrow> (string \<times> position) list" where
  "positionsSet symbol v ps = AList.update symbol v ps"

text \<open>
  \<open>#applyTrade\<close>. \<open>positions[symbol] || {quantity: 0, avgPrice: 0}\<close> hands
  \<open>updateSignedPosition\<close> an object in every case.
\<close>

definition applyTrade ::
  "config \<Rightarrow> platform \<Rightarrow> world \<Rightarrow> account \<Rightarrow> normOrder \<Rightarrow> real \<Rightarrow> real \<Rightarrow> real \<Rightarrow> world \<times> account" where
  "applyTrade cfg pf w account order fillPrice notional fees =
     (let isBuy = sideIsBuy (n_side order);
          deltaQty = (if isBuy then num_val (n_quantity order) else - num_val (n_quantity order));
          current = (case map_of (a_positions account) (n_symbol order) of
                       Some p \<Rightarrow> p
                     | None \<Rightarrow> \<lparr>p_symbol = n_symbol order, p_quantity = 0, p_avgPrice = 0\<rparr>);
          updated = updateSignedPosition (Some current) deltaQty fillPrice;
          account1 =
            (if fst updated = 0
             then account\<lparr>a_positions := positionsDelete (n_symbol order) (a_positions account)\<rparr>
             else account\<lparr>a_positions :=
                    positionsSet (n_symbol order)
                      \<lparr>p_symbol = n_symbol order, p_quantity = fst updated, p_avgPrice = snd updated\<rparr>
                      (a_positions account)\<rparr>);
          (now, w1) = newDate pf w;
          settleAt = nextBusinessDay pf now (settlementDaysEquities cfg);
          account2 =
            (if isBuy
             then account1\<lparr>a_reservedCash := roundMoney (a_reservedCash account1 + notional),
                    a_pendingSettlements := a_pendingSettlements account1 @
                      [\<lparr>s_amount = notional, s_direction = DEBIT, s_settleAt = settleAt,
                        s_symbol = n_symbol order\<rparr>]\<rparr>
             else account1\<lparr>a_unsettledCash := roundMoney (a_unsettledCash account1 + notional),
                    a_pendingSettlements := a_pendingSettlements account1 @
                      [\<lparr>s_amount = notional, s_direction = CREDIT, s_settleAt = settleAt,
                        s_symbol = n_symbol order\<rparr>]\<rparr>)
      in (w1, account2\<lparr>a_feesDue := roundMoney (a_feesDue account2 + fees)\<rparr>))"


section \<open>Metrics\<close>

record metrics =
  m_longValue :: real
  m_shortValue :: real
  m_marketValue :: real
  m_equity :: real
  m_initialRequired :: real
  m_maintenanceRequired :: real
  m_marginExcess :: real
  m_availableCash :: real

definition calculateMarginRequirements :: "config \<Rightarrow> real \<Rightarrow> real \<Rightarrow> real \<times> real" where
  "calculateMarginRequirements cfg longValue shortValue =
     (initialMarginLong cfg * longValue + initialMarginShort cfg * shortValue,
      maintenanceMarginLong cfg * longValue + maintenanceMarginShort cfg * shortValue)"

definition availableCash :: "account \<Rightarrow> real" where
  "availableCash account =
     roundMoney (a_settledCash account - a_reservedCash account - a_feesDue account)"

text \<open>
  The loop of \<open>#computeMetrics\<close> over \<open>Object.values(account.positions)\<close>; the
  accumulator is \<open>(longValue, shortValue, marketValue)\<close>. A failing \<open>peekQuote\<close> is not
  caught.
\<close>

fun metricsLoop :: "symbols \<Rightarrow> (string \<times> position) list \<Rightarrow> real \<times> real \<times> real \<Rightarrow> error + (real \<times> real \<times> real)" where
  "metricsLoop syms [] acc = Inr acc"
| "metricsLoop syms ((k, position) # rest) (longValue, shortValue, marketValue) =
     (case peekQuote syms (p_symbol position) of
        Inl e \<Rightarrow> Inl e
      | Inr (q, _) \<Rightarrow>
          let posValue = p_quantity position * q_mid q
          in metricsLoop syms rest
               (if p_quantity position > 0 then longValue + p_quantity position * q_mid q else longValue,
                if p_quantity position > 0 then shortValue
                else if p_quantity position < 0 then shortValue + \<bar>p_quantity position\<bar> * q_mid q
                else shortValue,
                marketValue + posValue))"

definition computeMetrics :: "config \<Rightarrow> symbols \<Rightarrow> account \<Rightarrow> error + metrics" where
  "computeMetrics cfg syms account =
     (case metricsLoop syms (a_positions account) (0, 0, 0) of
        Inl e \<Rightarrow> Inl e
      | Inr (longValue, shortValue, marketValue) \<Rightarrow>
          let (initialRequired, maintenanceRequired) =
                calculateMarginRequirements cfg longValue shortValue;
              cash = a_settledCash account + a_unsettledCash account;
              equity = roundMoney (cash + marketValue - a_feesDue account)
          in Inr \<lparr>m_longValue = roundMoney longValue,
                  m_shortValue = roundMoney shortValue,
                  m_marketValue = roundMoney marketValue,
                  m_equity = equity,
                  m_initialRequired = roundMoney initialRequired,
                  m_maintenanceRequired = roundMoney maintenanceRequired,
                  m_marginExcess = roundMoney (equity - maintenanceRequired),
                  m_availableCash = availableCash account\<rparr>)"

definition hasMaintenanceDeficiency :: "metrics \<Rightarrow> bool" where
  "hasMaintenanceDeficiency m = (m_equity m < m_maintenanceRequired m)"

record accountView =
  v_id :: int
  v_settledCash :: real
  v_unsettledCash :: real
  v_availableCash :: real
  v_reservedCash :: real
  v_equity :: real
  v_longValue :: real
  v_shortValue :: real
  v_initialRequired :: real
  v_maintenanceRequired :: real
  v_marginExcess :: real
  v_feesDue :: real
  v_openPositions :: nat
  v_openOrders :: nat

definition toAccountView :: "config \<Rightarrow> symbols \<Rightarrow> account \<Rightarrow> error + accountView" where
  "toAccountView cfg syms account =
     (case computeMetrics cfg syms account of
        Inl e \<Rightarrow> Inl e
      | Inr m \<Rightarrow>
          Inr \<lparr>v_id = a_id account,
               v_settledCash = roundMoney (a_settledCash account),
               v_unsettledCash = roundMoney (a_unsettledCash account),
               v_availableCash = roundMoney (m_availableCash m),
               v_reservedCash = roundMoney (a_reservedCash account),
               v_equity = m_equity m,
               v_longValue = m_longValue m,
               v_shortValue = m_shortValue m,
               v_initialRequired = m_initialRequired m,
               v_maintenanceRequired = m_maintenanceRequired m,
               v_marginExcess = m_marginExcess m,
               v_feesDue = roundMoney (a_feesDue account),
               v_openPositions = length (a_positions account),
               v_openOrders = length (filter (\<lambda>order. o_status order = OPEN) (a_orders account))\<rparr>)"


section \<open>Lifecycle maintenance\<close>

text \<open>The second loop of \<open>#settleDueEntries\<close>, over the due entries in their order.\<close>

fun applyDue :: "settlement list \<Rightarrow> account \<Rightarrow> account" where
  "applyDue [] account = account"
| "applyDue (entry # rest) account =
     applyDue rest
       (if s_direction entry = DEBIT
        then account\<lparr>a_settledCash := roundMoney (a_settledCash account - s_amount entry),
               a_reservedCash := roundMoney (max 0 (a_reservedCash account - s_amount entry))\<rparr>
        else account\<lparr>a_settledCash := roundMoney (a_settledCash account + s_amount entry),
               a_unsettledCash := roundMoney (a_unsettledCash account - s_amount entry)\<rparr>)"

definition settleDueEntries :: "int \<Rightarrow> account \<Rightarrow> account" where
  "settleDueEntries now account =
     (let due = filter (\<lambda>entry. s_settleAt entry \<le> now) (a_pendingSettlements account);
          pending = filter (\<lambda>entry. \<not> s_settleAt entry \<le> now) (a_pendingSettlements account);
          account1 = applyDue due (account\<lparr>a_pendingSettlements := pending\<rparr>)
      in if a_feesDue account1 > 0
         then account1\<lparr>a_settledCash := roundMoney (a_settledCash account1 - a_feesDue account1),
                a_feesDue := 0\<rparr>
         else account1)"

text \<open>
  The day-counting loop of \<open>#applyBorrowFeesIfNeeded\<close>, on day numbers: \<open>d\<close> runs from
  the last fee date to today in steps of one day.
\<close>

function countDays :: "int \<Rightarrow> int \<Rightarrow> int" where
  "countDays d to = (if d < to then 1 + countDays (d + 1) to else 0)"
  by pat_completeness auto

fun shortValueLoop :: "symbols \<Rightarrow> (string \<times> position) list \<Rightarrow> real \<Rightarrow> error + real" where
  "shortValueLoop syms [] shortValue = Inr shortValue"
| "shortValueLoop syms ((k, position) # rest) shortValue =
     (if p_quantity position \<ge> 0 then shortValueLoop syms rest shortValue
      else case peekQuote syms (p_symbol position) of
             Inl e \<Rightarrow> Inl e
           | Inr (q, _) \<Rightarrow> shortValueLoop syms rest (shortValue + \<bar>p_quantity position\<bar> * q_mid q))"

definition applyBorrowFeesIfNeeded ::
  "config \<Rightarrow> platform \<Rightarrow> world \<times> account \<Rightarrow> error + (world \<times> account)" where
  "applyBorrowFeesIfNeeded cfg pf wa =
     (let (w, account) = wa;
          (now, w1) = newDate pf w;
          today = toIsoDate now
      in if a_lastBorrowFeeDate account = today then Inr (w1, account)
         else
           let days = countDays (a_lastBorrowFeeDate account) today
           in if days \<le> 0 then Inr (w1, account\<lparr>a_lastBorrowFeeDate := today\<rparr>)
              else
                case shortValueLoop (w_symbols w1) (a_positions account) 0 of
                  Inl e \<Rightarrow> Inl e
                | Inr shortValue \<Rightarrow>
                    let borrowFee = roundMoney (shortValue * shortBorrowDailyRate cfg * real_of_int days);
                        account1 = (if borrowFee > 0
                                    then account\<lparr>a_feesDue := roundMoney (a_feesDue account + borrowFee)\<rparr>
                                    else account)
                    in Inr (w1, account1\<lparr>a_lastBorrowFeeDate := today\<rparr>))"


section \<open>Placing an order\<close>

definition rejectOrder :: "account \<Rightarrow> order \<Rightarrow> string \<Rightarrow> order \<times> account" where
  "rejectOrder account baseOrder reason =
     (let order = baseOrder\<lparr>o_status := REJECTED, o_reason := Some reason\<rparr>
      in (order, account\<lparr>a_orders := order # a_orders account\<rparr>))"

definition evaluateTrigger :: "normOrder \<Rightarrow> quote \<Rightarrow> string" where
  "evaluateTrigger order q =
     (if n_type order = ''MARKET'' \<or> n_type order = ''LIMIT'' then ''NOT_REQUIRED''
      else
        let isBuy = sideIsBuy (n_side order);
            triggered = (if isBuy then js_ge (q_mid q) (n_stopPrice order)
                         else js_le (q_mid q) (n_stopPrice order))
        in if \<not> triggered then ''PENDING_TRIGGER''
           else if n_type order = ''STOP'' then ''TRIGGERED_TO_MARKET''
           else ''TRIGGERED_TO_LIMIT'')"

definition evaluateFillCondition :: "string \<Rightarrow> normOrder \<Rightarrow> quote \<Rightarrow> bool" where
  "evaluateFillCondition effectiveType order q =
     (if effectiveType = ''MARKET'' then True
      else
        let isBuy = sideIsBuy (n_side order)
        in if isBuy then js_le (q_ask q) (n_limitPrice order)
           else js_ge (q_bid q) (n_limitPrice order))"

text \<open>
  \<open>#simulatePostTrade\<close>: the trade is applied to a copy (\<open>structuredClone\<close>), which in
  the model is the account value itself; the result is the rejection reason, if any.
\<close>

definition simulatePostTrade ::
  "config \<Rightarrow> platform \<Rightarrow> world \<Rightarrow> account \<Rightarrow> normOrder \<Rightarrow> real \<Rightarrow> real \<Rightarrow> real
     \<Rightarrow> error + (string option \<times> world)" where
  "simulatePostTrade cfg pf w account order fillPrice notional fees =
     (let (w1, draft) = applyTrade cfg pf w account order fillPrice notional fees
      in case computeMetrics cfg (w_symbols w1) draft of
           Inl e \<Rightarrow> Inl e
         | Inr metrics \<Rightarrow>
             if availableCash draft < 0
               then Inr (Some ''insufficient available buying power / margin'', w1)
             else if m_equity metrics < m_initialRequired metrics
               then Inr (Some ''insufficient available buying power / margin'', w1)
             else Inr (None, w1))"

text \<open>
  \<open>placeOrder\<close> between its two refreshes, in parts that follow the source top down.
  Pricing: base price, slippage, fill price, notional and fees.
\<close>

definition orderPricing ::
  "config \<Rightarrow> platform \<Rightarrow> normOrder \<Rightarrow> quote \<Rightarrow> world \<Rightarrow> real \<times> real \<times> real \<times> world" where
  "orderPricing cfg pf order executionQuote w =
     (let isBuy = sideIsBuy (n_side order);
          basePrice = (if isBuy then q_ask executionQuote else q_bid executionQuote);
          (slippageBps, w1) = calcSlippageBps cfg pf w (num_val (n_quantity order))
                                (q_volatilityProxy executionQuote);
          fillPrice = applyPriceImpact basePrice isBuy slippageBps;
          notional = roundMoney (fillPrice * num_val (n_quantity order));
          fees = calcFees cfg notional
      in (fillPrice, notional, fees, w1))"

text \<open>The simulated margin check, the trade and its records.\<close>

definition placeOrder_execute ::
  "config \<Rightarrow> platform \<Rightarrow> bool \<Rightarrow> normOrder \<Rightarrow> order \<Rightarrow> string \<Rightarrow> string \<Rightarrow> quote
     \<Rightarrow> world \<times> account \<Rightarrow> error + (order \<times> world \<times> account)" where
  "placeOrder_execute cfg pf bypassMarginCheck order baseOrder triggerState effectiveType executionQuote wa =
     (let (w, account) = wa;
          (fillPrice, notional, fees, w1) = orderPricing cfg pf order executionQuote w
      in case (if \<not> bypassMarginCheck
               then simulatePostTrade cfg pf w1 account order fillPrice notional fees
               else Inr (None, w1)) of
           Inl e \<Rightarrow> Inl e
         | Inr (Some reason, w2) \<Rightarrow>
             (let (rejected, account1) = rejectOrder account baseOrder reason
              in Inr (rejected, w2, account1))
         | Inr (None, w2) \<Rightarrow>
             (let (w3, account1) = applyTrade cfg pf w2 account order fillPrice notional fees;
                  filledOrder = baseOrder\<lparr>o_status := FILLED, o_fillPrice := Some fillPrice,
                                  o_fees := fees, o_triggerState := Some triggerState,
                                  o_effectiveType := Some effectiveType\<rparr>;
                  account2 = account1\<lparr>a_orders := filledOrder # a_orders account1\<rparr>;
                  (r, w4) = nextRandom pf w3;
                  account3 = account2\<lparr>a_fills :=
                     \<lparr>f_id = \<lfloor>r * 10000\<rfloor>, f_orderId = o_id filledOrder, f_accountId = a_id account,
                      f_symbol = n_symbol order, f_side = n_side order,
                      f_quantity = num_val (n_quantity order), f_price = fillPrice,
                      f_notional = notional, f_fees = fees\<rparr> # a_fills account2\<rparr>
              in Inr (filledOrder, w4, account3)))"

text \<open>Middle part: the execution quote and the fill check.\<close>

definition placeOrder_fill ::
  "config \<Rightarrow> platform \<Rightarrow> bool \<Rightarrow> normOrder \<Rightarrow> order \<Rightarrow> string
     \<Rightarrow> world \<times> account \<Rightarrow> error + (order \<times> world \<times> account)" where
  "placeOrder_fill cfg pf bypassMarginCheck order baseOrder triggerState wa =
     (let (w, account) = wa
      in case getQuote (w_symbols w) (n_symbol order) of
           Inl e \<Rightarrow> Inl e
         | Inr (executionQuote, syms1) \<Rightarrow>
             let w1 = w\<lparr>w_symbols := syms1\<rparr>;
                 effectiveType =
                   (if triggerState = ''TRIGGERED_TO_MARKET'' then ''MARKET''
                    else if triggerState = ''TRIGGERED_TO_LIMIT'' then ''LIMIT''
                    else n_type order)
             in if \<not> evaluateFillCondition effectiveType order executionQuote
                then Inr (baseOrder, w1, account\<lparr>a_orders := baseOrder # a_orders account\<rparr>)
                else placeOrder_execute cfg pf bypassMarginCheck order baseOrder triggerState
                       effectiveType executionQuote (w1, account))"

text \<open>
  First part: normalisation, validation, market hours, the first quote, the maintenance
  guard and the trigger.
\<close>

definition placeOrder_core ::
  "config \<Rightarrow> platform \<Rightarrow> rawOrder \<Rightarrow> world \<times> account \<Rightarrow> error + (order \<times> world \<times> account)" where
  "placeOrder_core cfg pf rawOrder wa =
     (let (w, account) = wa;
          order = normalizeOrderInput rawOrder;
          bypassMarginCheck = r_bypassMarginCheck rawOrder;
          (r, w1) = nextRandom pf w;
          baseOrder = \<lparr>o_id = OrdId \<lfloor>r * 10000\<rfloor>, o_accountId = a_id account,
                       o_symbol = n_symbol order, o_type = n_type order, o_side = n_side order,
                       o_tif = n_tif order, o_quantity = n_quantity order,
                       o_limitPrice = n_limitPrice order, o_stopPrice = n_stopPrice order,
                       o_status = OPEN, o_reason = None, o_fillPrice = None, o_fees = 0,
                       o_triggerState = None, o_effectiveType = None\<rparr>
      in case validateOrderByType order of
           Some validationError \<Rightarrow>
             (let (rejected, account1) = rejectOrder account baseOrder validationError
              in Inr (rejected, w1, account1))
         | None \<Rightarrow>
             let (now, w2) = newDate pf w1
             in if \<not> isMarketOpen cfg pf now then
                  (let (rejected, account1) = rejectOrder account baseOrder ''market closed''
                   in Inr (rejected, w2, account1))
                else
                  case getQuote (w_symbols w2) (n_symbol order) of
                    Inl _ \<Rightarrow>
                      (let (rejected, account1) = rejectOrder account baseOrder ''unknown symbol''
                       in Inr (rejected, w2, account1))
                  | Inr (q, syms1) \<Rightarrow>
                      let w3 = w2\<lparr>w_symbols := syms1\<rparr>
                      in case (if \<not> bypassMarginCheck
                               then (case computeMetrics cfg (w_symbols w3) account of
                                       Inl e \<Rightarrow> Inl e
                                     | Inr m \<Rightarrow> Inr (hasMaintenanceDeficiency m))
                               else Inr False) of
                           Inl e \<Rightarrow> Inl e
                         | Inr True \<Rightarrow>
                             (let (rejected, account1) =
                                    rejectOrder account baseOrder
                                      ''margin deficiency: account below maintenance''
                              in Inr (rejected, w3, account1))
                         | Inr False \<Rightarrow>
                             let triggerState = evaluateTrigger order q
                             in if triggerState = ''PENDING_TRIGGER''
                                  then Inr (baseOrder, w3, account\<lparr>a_orders := baseOrder # a_orders account\<rparr>)
                                else if triggerState = ''PENDING_LIMIT''
                                  then Inr (baseOrder, w3, account\<lparr>a_orders := baseOrder # a_orders account\<rparr>)
                                else placeOrder_fill cfg pf bypassMarginCheck order baseOrder
                                       triggerState (w3, account))"

text \<open>
  \<open>placeOrder\<close> itself, over the refresh it is given: \<open>None\<close> stands for a call that has
  not returned. Only the filled path (the one that returns a FILLED order) refreshes
  again. The account is the object that \<open>#requireAccount\<close> finds; an unknown account id
  throws before anything happens.
\<close>

definition placeOrder_with ::
  "(world \<times> account \<Rightarrow> (error + world \<times> account) option) \<Rightarrow> config \<Rightarrow> platform \<Rightarrow> rawOrder
     \<Rightarrow> world \<times> account \<Rightarrow> (error + order \<times> world \<times> account) option" where
  "placeOrder_with refresh cfg pf rawOrder wa =
     (case refresh wa of
        None \<Rightarrow> None
      | Some (Inl e) \<Rightarrow> Some (Inl e)
      | Some (Inr wa1) \<Rightarrow>
          (case placeOrder_core cfg pf rawOrder wa1 of
             Inl e \<Rightarrow> Some (Inl e)
           | Inr (order, w2, account2) \<Rightarrow>
               if o_status order = FILLED then
                 (case refresh (w2, account2) of
                    None \<Rightarrow> None
                  | Some (Inl e) \<Rightarrow> Some (Inl e)
                  | Some (Inr (w3, account3)) \<Rightarrow> Some (Inr (order, w3, account3)))
               else Some (Inr (order, w2, account2))))"


section \<open>Forced liquidation and refresh\<close>

fun withValueLoop :: "symbols \<Rightarrow> (string \<times> position) list \<Rightarrow> error + (position \<times> real) list" where
  "withValueLoop syms [] = Inr []"
| "withValueLoop syms ((k, position) # rest) =
     (case peekQuote syms (p_symbol position) of
        Inl e \<Rightarrow> Inl e
      | Inr (q, _) \<Rightarrow>
          (case withValueLoop syms rest of
             Inl e \<Rightarrow> Inl e
           | Inr others \<Rightarrow> Inr ((position, \<bar>p_quantity position * q_mid q\<bar>) # others)))"

text \<open>
  \<open>#forceLiquidateLargestPosition\<close>, over the \<open>placeOrder\<close> it calls. The sort is stable
  and descending in \<open>absValue\<close>.
\<close>

definition forceLiquidateLargestPosition ::
  "(rawOrder \<Rightarrow> world \<times> account \<Rightarrow> (error + order \<times> world \<times> account) option)
     \<Rightarrow> world \<times> account \<Rightarrow> (error + world \<times> account) option" where
  "forceLiquidateLargestPosition place wa =
     (let (w, account) = wa
      in if length (a_positions account) = 0 then Some (Inr (w, account))
         else
           case withValueLoop (w_symbols w) (a_positions account) of
             Inl e \<Rightarrow> Some (Inl e)
           | Inr withValue \<Rightarrow>
               (case sort_key (\<lambda>x. - snd x) withValue of
                  [] \<Rightarrow> Some (Inl TypeError)
                | first # _ \<Rightarrow>
                    let target = fst first;
                        side = (if p_quantity target > 0 then ''SELL'' else ''BUY_TO_COVER'')
                    in case place \<lparr>r_symbol = p_symbol target, r_type = ''MARKET'', r_side = side,
                                   r_tif = ''IOC'', r_quantity = Num \<bar>p_quantity target\<bar>,
                                   r_limitPrice = Null, r_stopPrice = Null,
                                   r_bypassMarginCheck = True\<rparr> (w, account) of
                         None \<Rightarrow> None
                       | Some (Inl e) \<Rightarrow> Some (Inl e)
                       | Some (Inr (forced, w1, account1)) \<Rightarrow>
                           if o_status forced = REJECTED then
                             let marker = \<lparr>o_id = MARGINCALL, o_accountId = a_id account1,
                                            o_symbol = p_symbol target, o_type = ''MARKET'',
                                            o_side = side, o_tif = ''IOC'',
                                            o_quantity = Num \<bar>p_quantity target\<bar>,
                                            o_limitPrice = Null, o_stopPrice = Null,
                                            o_status = REJECTED,
                                            o_reason = Some ''margin_call_forced_liquidation_failed'',
                                            o_fillPrice = None, o_fees = 0,
                                            o_triggerState = None, o_effectiveType = None\<rparr>
                             in Some (Inr (w1, account1\<lparr>a_orders := marker # a_orders account1\<rparr>))
                           else Some (Inr (w1, account1))))"

text \<open>
  \<open>#refreshAccount\<close>. It calls \<open>#forceLiquidateLargestPosition\<close>, which calls
  \<open>placeOrder\<close>, which calls \<open>#refreshAccount\<close>: the first argument bounds the depth of
  that nesting, and \<open>None\<close> says that the bound was not enough for the call to return.
\<close>

primrec refreshAccount ::
  "nat \<Rightarrow> config \<Rightarrow> platform \<Rightarrow> world \<times> account \<Rightarrow> (error + world \<times> account) option" where
  "refreshAccount 0 cfg pf wa = None"
| "refreshAccount (Suc depth) cfg pf wa =
     (let (w, account) = wa;
          (now, w1) = newDate pf w;
          account1 = settleDueEntries now account
      in case applyBorrowFeesIfNeeded cfg pf (w1, account1) of
           Inl e \<Rightarrow> Some (Inl e)
         | Inr (w2, account2) \<Rightarrow>
             if forceLiquidationEnabled cfg then
               (case computeMetrics cfg (w_symbols w2) account2 of
                  Inl e \<Rightarrow> Some (Inl e)
                | Inr metrics \<Rightarrow>
                    if hasMaintenanceDeficiency metrics
                    then forceLiquidateLargestPosition
                           (placeOrder_with (refreshAccount depth cfg pf) cfg pf) (w2, account2)
                    else Some (Inr (w2, account2)))
             else Some (Inr (w2, account2)))"

definition placeOrder ::
  "nat \<Rightarrow> config \<Rightarrow> platform \<Rightarrow> rawOrder \<Rightarrow> world \<times> account
     \<Rightarrow> (error + order \<times> world \<times> account) option" where
  "placeOrder depth cfg pf rawOrder wa = placeOrder_with (refreshAccount depth cfg pf) cfg pf rawOrder wa"

definition getAccount ::
  "nat \<Rightarrow> config \<Rightarrow> platform \<Rightarrow> world \<times> account \<Rightarrow> (error + accountView \<times> world \<times> account) option" where
  "getAccount depth cfg pf wa =
     (case refreshAccount depth cfg pf wa of
        None \<Rightarrow> None
      | Some (Inl e) \<Rightarrow> Some (Inl e)
      | Some (Inr (w1, account1)) \<Rightarrow>
          (case toAccountView cfg (w_symbols w1) account1 of
             Inl e \<Rightarrow> Some (Inl e)
           | Inr view \<Rightarrow> Some (Inr (view, w1, account1))))"


section \<open>Terms of the statements and example data\<close>

text \<open>The entry that a symbol has in \<open>positions\<close> for a quantity: none at quantity 0.\<close>

definition positionOf :: "string \<Rightarrow> real \<Rightarrow> real \<Rightarrow> position option" where
  "positionOf symbol quantity avgPrice =
     (if quantity = 0 then None
      else Some \<lparr>p_symbol = symbol, p_quantity = quantity, p_avgPrice = avgPrice\<rparr>)"

text \<open>Whether a number has at most 6 decimals.\<close>

definition decimals6 :: "real \<Rightarrow> bool" where
  "decimals6 x = (real_of_int \<lfloor>x * 1000000\<rfloor> = x * 1000000)"

text \<open>The mid that \<open>peekQuote\<close> reports for a symbol.\<close>

definition midOf :: "symbols \<Rightarrow> string \<Rightarrow> real" where
  "midOf syms symbol = (case peekQuote syms symbol of Inr (q, _) \<Rightarrow> q_mid q | Inl _ \<Rightarrow> 0)"

text \<open>Whether \<open>peekQuote\<close> succeeds for the symbol of every position.\<close>

definition quotable :: "symbols \<Rightarrow> (string \<times> position) list \<Rightarrow> bool" where
  "quotable syms ps =
     list_all (\<lambda>(k, p). case syms (p_symbol p) of
                           None \<Rightarrow> False
                         | Some entry \<Rightarrow> e_index entry < length (e_series entry)) ps"

text \<open>
  Settlement of one entry as the specification words it, on the three cash balances
  \<open>(settledCash, unsettledCash, reservedCash)\<close>, each write rounded to 6 decimals.
\<close>

definition settleEntry :: "real \<times> real \<times> real \<Rightarrow> settlement \<Rightarrow> real \<times> real \<times> real" where
  "settleEntry cash entry =
     (case cash of (settled, unsettled, reserved) \<Rightarrow>
        (case s_direction entry of
           DEBIT \<Rightarrow> (roundMoney (settled - s_amount entry), unsettled,
                     roundMoney (max 0 (reserved - s_amount entry)))
         | CREDIT \<Rightarrow> (roundMoney (settled + s_amount entry),
                      roundMoney (unsettled - s_amount entry), reserved)))"

text \<open>
  The provider after a call of \<open>placeOrder\<close> for a symbol: as before, or one or two
  \<open>getQuote\<close> calls for that symbol later.
\<close>

definition cursorMoves :: "symbols \<Rightarrow> string \<Rightarrow> symbols \<Rightarrow> bool" where
  "cursorMoves syms symbol syms' =
     (syms' = syms
      \<or> (\<exists>q1 s1. getQuote syms symbol = Inr (q1, s1)
            \<and> (syms' = s1 \<or> (\<exists>q2 s2. getQuote s1 symbol = Inr (q2, s2) \<and> syms' = s2))))"

text \<open>The \<open>baseOrder\<close> that \<open>placeOrder\<close> builds in a given world for a normalised order.\<close>

definition baseOrderOf :: "platform \<Rightarrow> world \<Rightarrow> account \<Rightarrow> normOrder \<Rightarrow> order" where
  "baseOrderOf pf w account order =
     \<lparr>o_id = OrdId \<lfloor>rng pf (w_rngCalls w) * 10000\<rfloor>, o_accountId = a_id account,
      o_symbol = n_symbol order, o_type = n_type order, o_side = n_side order,
      o_tif = n_tif order, o_quantity = n_quantity order,
      o_limitPrice = n_limitPrice order, o_stopPrice = n_stopPrice order,
      o_status = OPEN, o_reason = None, o_fillPrice = None, o_fees = 0,
      o_triggerState = None, o_effectiveType = None\<rparr>"

text \<open>The world in which \<open>placeOrder\<close> goes on once it holds a quote: one draw and one clock reading later.\<close>

definition worldAfterQuote :: "world \<Rightarrow> symbols \<Rightarrow> world" where
  "worldAfterQuote w syms =
     w\<lparr>w_rngCalls := Suc (w_rngCalls w), w_clockReads := Suc (w_clockReads w), w_symbols := syms\<rparr>"

text \<open>Whether a refresh finds the account below maintenance.\<close>

definition liquidationDue :: "config \<Rightarrow> symbols \<Rightarrow> account \<Rightarrow> bool" where
  "liquidationDue cfg syms account =
     (case computeMetrics cfg syms account of
        Inl e \<Rightarrow> False
      | Inr metrics \<Rightarrow> hasMaintenanceDeficiency metrics)"

text \<open>
  A small configuration with the margin ratios of the unit tests, a platform whose clock
  stands at the epoch (a Thursday), a replay dataset of two symbols and a fresh account
  with a capital of 100000.
\<close>

definition exampleConfig :: config where
  "exampleConfig =
     \<lparr>enforceMarketHours = False, marketOpenHour = 9, marketOpenMinute = 30,
      marketCloseHour = 16, marketCloseMinute = 0, commissionPerTrade = 1, feeRateBps = 1,
      baseSlippageBps = 1, sizeImpactBps = 0, randomSlippageBps = 2,
      initialMarginLong = 1 / 2, initialMarginShort = 3 / 2,
      maintenanceMarginLong = 1 / 4, maintenanceMarginShort = 3 / 10,
      settlementDaysEquities = 2, shortBorrowDailyRate = 1 / 10000,
      forceLiquidationEnabled = False\<rparr>"

definition examplePlatform :: platform where
  "examplePlatform = \<lparr>rng = (\<lambda>_. 1 / 2), clock = (\<lambda>_. 0), tzOffsetMs = 0\<rparr>"

definition exampleSymbols :: symbols where
  "exampleSymbols = newReplay [(''AAPL'', [100, 102], None), (''TSLA'', [200, 204], Some 10)] 8"

definition exampleWorld :: world where
  "exampleWorld = \<lparr>w_symbols = exampleSymbols, w_rngCalls = 0, w_clockReads = 0\<rparr>"

definition exampleAccount :: account where
  "exampleAccount =
     \<lparr>a_id = 5000, a_settledCash = 100000, a_unsettledCash = 0, a_reservedCash = 0,
      a_feesDue = 0, a_positions = [], a_orders = [], a_fills = [],
      a_pendingSettlements = [], a_lastBorrowFeeDate = 0\<rparr>"

definition exampleRaw :: "string \<Rightarrow> string \<Rightarrow> string \<Rightarrow> string \<Rightarrow> real \<Rightarrow> jsnum \<Rightarrow> rawOrder" where
  "exampleRaw symbol type side tif quantity limitPrice =
     \<lparr>r_symbol = symbol, r_type = type, r_side = side, r_tif = tif, r_quantity = Num quantity,
      r_limitPrice = limitPrice, r_stopPrice = Null, r_bypassMarginCheck = False\<rparr>"

text \<open>The first AAPL quote of the example dataset, and an account with a capital of 500.\<close>

definition exampleQuote :: quote where
  "exampleQuote =
     \<lparr>q_symbol = ''AAPL'', q_bid = 9996 / 100, q_ask = 10004 / 100, q_mid = 100,
      q_spreadBps = 8, q_volatilityProxy = 1 / 1000\<rparr>"

definition poorAccount :: account where
  "poorAccount = exampleAccount\<lparr>a_settledCash := 500\<rparr>"


definition exampleOrder :: "string \<Rightarrow> string \<Rightarrow> real \<Rightarrow> normOrder" where
  "exampleOrder symbol side quantity =
     \<lparr>n_type = ''MARKET'', n_side = side, n_tif = ''DAY'', n_quantity = Num quantity,
      n_limitPrice = Null, n_stopPrice = Null, n_symbol = symbol\<rparr>"


text \<open>
  A short position of 20 TSLA, sold at 200 and settled, on an account that now holds
  10000 in cash, with TSLA quoted at a mid of 400: equity 2000, maintenance 2400.
\<close>

definition marginCallWorld :: world where
  "marginCallWorld =
     \<lparr>w_symbols = [''TSLA'' \<mapsto> \<lparr>e_spreadBps = 8, e_series = [200, 400], e_index = 1\<rparr>],
      w_rngCalls = 0, w_clockReads = 0\<rparr>"

definition marginCallAccount :: account where
  "marginCallAccount =
     exampleAccount\<lparr>a_settledCash := 10000, a_positions :=
       [(''TSLA'', \<lparr>p_symbol = ''TSLA'', p_quantity = - 20, p_avgPrice = 200\<rparr>)]\<rparr>"


section \<open>Termination of the loops\<close>

lemma getDay_next: "getDay pf (t + 86400000) = (getDay pf t + 1) mod 7"
proof -
  have "(t + 86400000 + tzOffsetMs pf) div 86400000 = (t + tzOffsetMs pf) div 86400000 + 1"
    by simp
  then show ?thesis
    by (simp add: getDay_def add.commute add.left_commute mod_simps)
qed

termination nextBusinessDay
proof (relation "measure (\<lambda>(pf, next, remaining).
         nat (3 * remaining) + (if getDay pf next = 6 then 1 else if getDay pf next = 0 then 0 else 2))")
  show "wf (measure (\<lambda>(pf, next, remaining).
         nat (3 * remaining) + (if getDay pf next = 6 then 1 else if getDay pf next = 0 then 0 else 2)))"
    by simp
next
  fix pf :: platform and "next" remaining x xa :: int
  assume "0 < remaining" "x = next + 86400000" "xa = getDay pf x" "xa \<noteq> 0 \<and> xa \<noteq> 6"
  then show "((pf, x, remaining - 1), pf, next, remaining) \<in> measure (\<lambda>(pf, next, remaining).
         nat (3 * remaining) + (if getDay pf next = 6 then 1 else if getDay pf next = 0 then 0 else 2))"
    by auto
next
  fix pf :: platform and "next" remaining x xa :: int
  assume a: "0 < remaining" "x = next + 86400000" "xa = getDay pf x" "\<not> (xa \<noteq> 0 \<and> xa \<noteq> 6)"
  have "getDay pf x = (getDay pf next + 1) mod 7"
    using a(2) getDay_next by simp
  moreover have "0 \<le> getDay pf next" "getDay pf next < 7"
    by (simp_all add: getDay_def)
  ultimately have "(getDay pf x = 6 \<and> getDay pf next = 5) \<or> (getDay pf x = 0 \<and> getDay pf next = 6)"
    using a(3,4) by (auto simp: zmod_eq_0_iff) presburger+
  then show "((pf, x, remaining), pf, next, remaining) \<in> measure (\<lambda>(pf, next, remaining).
         nat (3 * remaining) + (if getDay pf next = 6 then 1 else if getDay pf next = 0 then 0 else 2))"
    by auto
qed

termination countDays
  by (relation "measure (\<lambda>(d, to). nat (to - d))") auto

declare nextBusinessDay.simps [simp del]

declare countDays.simps [simp del]


section \<open>Facts about rounding\<close>

lemma floor_half: "\<bar>real_of_int \<lfloor>y + 1 / 2\<rfloor> - y\<bar> \<le> 1 / 2" for y :: real
  by linarith

lemma floor_half_zero: "\<lfloor>y + 1 / 2\<rfloor> = 0 \<longleftrightarrow> - 1 / 2 \<le> y \<and> y < 1 / 2" for y :: real
  by linarith

lemma roundMoney_0: "roundMoney 0 = 0"
  by (simp add: roundMoney_def)

lemma roundMoney_minus: "roundMoney (- x) = - roundMoney x"
  by (auto simp: roundMoney_def)

lemma roundMoney_err: "\<bar>roundMoney x - x\<bar> \<le> 1 / 2000000"
proof (cases "x < 0")
  case True
  have "\<bar>real_of_int \<lfloor>- x * 1000000 + 1 / 2\<rfloor> - (- x * 1000000)\<bar> \<le> 1 / 2"
    by (rule floor_half)
  with True show ?thesis by (simp add: roundMoney_def field_simps abs_if split: if_splits)
next
  case False
  have "\<bar>real_of_int \<lfloor>x * 1000000 + 1 / 2\<rfloor> - (x * 1000000)\<bar> \<le> 1 / 2"
    by (rule floor_half)
  with False show ?thesis by (simp add: roundMoney_def field_simps abs_if split: if_splits)
qed

lemma roundMoney_nonneg: "0 \<le> x \<Longrightarrow> 0 \<le> roundMoney x"
  by (simp add: roundMoney_def)

lemma roundMoney_nonpos: "x \<le> 0 \<Longrightarrow> roundMoney x \<le> 0"
  using roundMoney_nonneg [of "- x"] by (simp add: roundMoney_minus)

lemma roundMoney_mono: "x \<le> y \<Longrightarrow> roundMoney x \<le> roundMoney y"
proof -
  assume xy: "x \<le> y"
  consider "0 \<le> x" | "x < 0" "0 \<le> y" | "y < 0" using xy by linarith
  then show ?thesis
  proof cases
    case 1
    then have "\<lfloor>x * 1000000 + 1 / 2\<rfloor> \<le> \<lfloor>y * 1000000 + 1 / 2\<rfloor>"
      using xy by (intro floor_mono) simp
    with 1 xy show ?thesis by (simp add: roundMoney_def divide_right_mono)
  next
    case 2
    then show ?thesis using roundMoney_nonneg [of y] roundMoney_nonpos [of x] by linarith
  next
    case 3
    then have "\<lfloor>- y * 1000000 + 1 / 2\<rfloor> \<le> \<lfloor>- x * 1000000 + 1 / 2\<rfloor>"
      using xy by (intro floor_mono) simp
    with 3 xy show ?thesis by (simp add: roundMoney_def divide_right_mono)
  qed
qed

text \<open>Values with at most six decimals are fixed points, and every result is one.\<close>

lemma roundMoney_grid: "roundMoney (real_of_int k / 1000000) = real_of_int k / 1000000"
proof -
  have a: "\<lfloor>real_of_int k + 1 / 2\<rfloor> = k" by linarith
  have b: "\<lfloor>- real_of_int k + 1 / 2\<rfloor> = - k" by linarith
  show ?thesis using a b by (simp add: roundMoney_def)
qed

lemma roundMoney_is_grid: "\<exists>k. roundMoney x = real_of_int k / 1000000"
  unfolding roundMoney_def
  by (metis of_int_minus minus_divide_left)

lemma roundMoney_idem: "roundMoney (roundMoney x) = roundMoney x"
proof -
  obtain k where "roundMoney x = real_of_int k / 1000000"
    using roundMoney_is_grid by blast
  then show ?thesis by (simp only: roundMoney_grid)
qed

lemma roundMoney_eq_0_iff: "roundMoney x = 0 \<longleftrightarrow> \<bar>x\<bar> < 1 / 2000000"
proof (cases "x < 0")
  case True
  then have "roundMoney x = 0 \<longleftrightarrow> \<lfloor>- x * 1000000 + 1 / 2\<rfloor> = 0"
    by (simp add: roundMoney_def)
  also have "\<dots> \<longleftrightarrow> - 1 / 2 \<le> - x * 1000000 \<and> - x * 1000000 < 1 / 2"
    by (rule floor_half_zero)
  also have "\<dots> \<longleftrightarrow> \<bar>x\<bar> < 1 / 2000000"
    using True by (simp add: abs_if) linarith
  finally show ?thesis .
next
  case False
  then have "roundMoney x = 0 \<longleftrightarrow> \<lfloor>x * 1000000 + 1 / 2\<rfloor> = 0"
    by (simp add: roundMoney_def)
  also have "\<dots> \<longleftrightarrow> - 1 / 2 \<le> x * 1000000 \<and> x * 1000000 < 1 / 2"
    by (rule floor_half_zero)
  also have "\<dots> \<longleftrightarrow> \<bar>x\<bar> < 1 / 2000000"
    using False by (simp add: abs_if) linarith
  finally show ?thesis .
qed

lemma roundMoney_add_grid:
  assumes "roundMoney x = x" "roundMoney y = y"
  shows "roundMoney (x + y) = x + y"
proof -
  obtain k where k: "roundMoney x = real_of_int k / 1000000" using roundMoney_is_grid by blast
  obtain l where l: "roundMoney y = real_of_int l / 1000000" using roundMoney_is_grid by blast
  have "x + y = real_of_int (k + l) / 1000000" using assms k l by (simp add: add_divide_distrib)
  then show ?thesis by (simp only: roundMoney_grid)
qed

lemma roundMoney_decimals6: "decimals6 x \<Longrightarrow> roundMoney x = x"
proof -
  assume "decimals6 x"
  then have "real_of_int \<lfloor>x * 1000000\<rfloor> = x * 1000000" unfolding decimals6_def .
  then have "x = real_of_int \<lfloor>x * 1000000\<rfloor> / 1000000" by linarith
  then obtain k where "x = real_of_int k / 1000000" ..
  then show ?thesis by (simp only: roundMoney_grid)
qed


section \<open>Quotes of the replay provider\<close>

lemma quote_Inr:
  assumes "quote syms symbol advance = Inr (q, syms')"
  obtains entry where "syms symbol = Some entry" "e_index entry < length (e_series entry)"
    "q_bid q = roundMoney (e_series entry ! e_index entry
                 - e_series entry ! e_index entry * e_spreadBps entry / 20000)"
    "q_ask q = roundMoney (e_series entry ! e_index entry
                 + e_series entry ! e_index entry * e_spreadBps entry / 20000)"
    "q_mid q = roundMoney (e_series entry ! e_index entry)"
    "q_spreadBps q = e_spreadBps entry" "q_symbol q = symbol"
    "syms' = (if advance
              then syms(symbol \<mapsto> entry\<lparr>e_index := (e_index entry + 1) mod length (e_series entry)\<rparr>)
              else syms)"
  using assms unfolding quote_def
  by (auto simp: Let_def split: option.splits if_splits)

text \<open>
  C7. A quote for a configured symbol whose series value at the cursor is \<open>m\<close> and whose
  spread is \<open>s\<close> has \<open>bid = round6 (m - m s / 20000)\<close>, \<open>ask = round6 (m + m s / 20000)\<close>
  and \<open>mid = round6 m\<close>. For positive \<open>m\<close> and a spread that is not negative,
  \<open>bid \<le> mid \<le> ask\<close>, and \<open>ask - bid\<close> is \<open>m s / 10000\<close> up to the rounding of the two
  prices, that is within \<open>10^-6\<close>; it is not that value exactly.
\<close>

theorem quote_bid_ask_spread:
  assumes "quote syms symbol advance = Inr (q, syms')"
    and "syms symbol = Some entry"
    and "m = e_series entry ! e_index entry"
    and "s = e_spreadBps entry"
  shows "q_bid q = roundMoney (m - m * s / 20000)
       \<and> q_ask q = roundMoney (m + m * s / 20000)
       \<and> q_mid q = roundMoney m
       \<and> (0 < m \<and> 0 \<le> s \<longrightarrow>
            q_bid q \<le> q_mid q \<and> q_mid q \<le> q_ask q
            \<and> \<bar>(q_ask q - q_bid q) - m * s / 10000\<bar> \<le> 1 / 1000000)"
proof -
  from assms(1) obtain entry' where e: "syms symbol = Some entry'"
    "q_bid q = roundMoney (e_series entry' ! e_index entry'
                 - e_series entry' ! e_index entry' * e_spreadBps entry' / 20000)"
    "q_ask q = roundMoney (e_series entry' ! e_index entry'
                 + e_series entry' ! e_index entry' * e_spreadBps entry' / 20000)"
    "q_mid q = roundMoney (e_series entry' ! e_index entry')"
    by (rule quote_Inr)
  define h where "h = m * s / 20000"
  from e assms have b: "q_bid q = roundMoney (m - h)"
    and a: "q_ask q = roundMoney (m + h)" and c: "q_mid q = roundMoney m"
    by (simp_all add: h_def)
  have ord: "q_bid q \<le> q_mid q \<and> q_mid q \<le> q_ask q" if "0 < m" "0 \<le> s"
  proof -
    have "0 \<le> h" using that by (simp add: h_def)
    then show ?thesis unfolding a b c by (intro conjI roundMoney_mono) linarith+
  qed
  have "m * s / 10000 = 2 * h" by (simp add: h_def)
  then have width: "\<bar>(q_ask q - q_bid q) - m * s / 10000\<bar> \<le> 1 / 1000000"
    using roundMoney_err [of "m + h"] roundMoney_err [of "m - h"]
    unfolding a b by linarith
  show ?thesis using a b c ord width unfolding h_def by blast
qed

theorem quote_bid_ask_spread_witness:
  "\<exists>q syms'. quote (newReplay [(''AAPL'', [100, 101], None)] 8) ''AAPL'' True = Inr (q, syms')
     \<and> q_bid q = 9996 / 100 \<and> q_ask q = 10004 / 100 \<and> q_mid q = 100
     \<and> q_bid q \<le> q_mid q \<and> q_mid q \<le> q_ask q
     \<and> \<bar>(q_ask q - q_bid q) - 100 * 8 / 10000\<bar> \<le> 1 / 1000000"
proof -
  define syms where "syms = newReplay [(''AAPL'', [100, 101], None)] 8"
  define entry where "entry = \<lparr>e_spreadBps = 8, e_series = [100, 101], e_index = 0\<rparr>"
  have 1: "syms ''AAPL'' = Some entry"
    by (simp add: syms_def entry_def newReplay_def)
  have "\<exists>q syms'. quote syms ''AAPL'' True = Inr (q, syms')"
    by (simp add: quote_def 1 entry_def Let_def)
  then obtain q syms' where 2: "quote syms ''AAPL'' True = Inr (q, syms')"
    by blast
  have 3: "(100::real) = e_series entry ! e_index entry" and 4: "(8::real) = e_spreadBps entry"
    by (simp_all add: entry_def)
  have r: "roundMoney (100 - 100 * 8 / 20000) = 9996 / 100"
    "roundMoney (100 + 100 * 8 / 20000) = 10004 / 100" "roundMoney 100 = 100"
    by (simp_all add: roundMoney_def)
  from quote_bid_ask_spread [OF 2 1 3 4] r 2 show ?thesis
    unfolding syms_def by auto
qed

text \<open>
  The width of the spread is not exact: at mid 100.001 and 7 bps the quote is
  99.966 / 100.036, whose difference 0.07 is not 100.001 * 7 / 10000 = 0.0700007.
\<close>

theorem quote_spread_width_counterexample:
  "0 < q_mid (fst (projr (getQuote (newReplay [(''X'', [100001 / 1000], Some 7)] 8) ''X'')))
   \<and> q_ask (fst (projr (getQuote (newReplay [(''X'', [100001 / 1000], Some 7)] 8) ''X'')))
       - q_bid (fst (projr (getQuote (newReplay [(''X'', [100001 / 1000], Some 7)] 8) ''X'')))
     \<noteq> q_mid (fst (projr (getQuote (newReplay [(''X'', [100001 / 1000], Some 7)] 8) ''X'')))
         * q_spreadBps (fst (projr (getQuote (newReplay [(''X'', [100001 / 1000], Some 7)] 8) ''X'')))
         / 10000"
  by (simp add: newReplay_def getQuote_def quote_def roundMoney_def Let_def)

text \<open>
  C8. For a configured symbol whose cursor is inside its series (it starts at 0 and stays
  inside, so this is every configured symbol with a series that is not empty),
  \<open>peekQuote\<close> returns the quote that \<open>getQuote\<close> returns and leaves the provider as
  it was, while \<open>getQuote\<close> moves the cursor of that symbol, and of no other, one step
  on, modulo the length of the series. For a symbol that is not configured both fail, and
  for a configured symbol with an empty series both fail as well, on the undefined mid; a
  failed call has no new state, the caller goes on with the provider as it was.
\<close>

theorem peekQuote_getQuote_cursor:
  "(syms symbol = None \<longrightarrow>
      peekQuote syms symbol = Inl UnknownSymbol \<and> getQuote syms symbol = Inl UnknownSymbol)
   \<and> (\<forall>entry. syms symbol = Some entry \<and> e_index entry < length (e_series entry) \<longrightarrow>
        (\<exists>q. peekQuote syms symbol = Inr (q, syms)
            \<and> getQuote syms symbol =
                Inr (q, syms(symbol \<mapsto>
                       entry\<lparr>e_index := (e_index entry + 1) mod length (e_series entry)\<rparr>)))
        \<and> (e_index entry + 1) mod length (e_series entry) < length (e_series entry))
   \<and> (\<forall>entry. syms symbol = Some entry \<and> \<not> e_index entry < length (e_series entry) \<longrightarrow>
        peekQuote syms symbol = Inl TypeError \<and> getQuote syms symbol = Inl TypeError)"
proof -
  have inside: "(i + 1) mod length xs < length xs" if "i < length xs" for i and xs :: "real list"
    using that by (intro mod_less_divisor) auto
  show ?thesis
    using inside by (simp add: peekQuote_def getQuote_def quote_def Let_def)
qed

text \<open>A symbol configured with an empty series cannot be quoted.\<close>

theorem getQuote_empty_series_counterexample:
  "getQuote (newReplay [(''X'', [], None)] 8) ''X'' = Inl TypeError
   \<and> peekQuote (newReplay [(''X'', [], None)] 8) ''X'' = Inl TypeError"
  by (simp add: getQuote_def peekQuote_def quote_def newReplay_def)

text \<open>
  The example provider: MSFT is not configured; the cursor of AAPL goes from 0 to 1 and
  from 1 back to 0, and the cursor of TSLA stays where it is.
\<close>

theorem peekQuote_getQuote_cursor_witness:
  "peekQuote exampleSymbols ''MSFT'' = Inl UnknownSymbol
   \<and> getQuote exampleSymbols ''MSFT'' = Inl UnknownSymbol
   \<and> (\<exists>q. peekQuote exampleSymbols ''AAPL'' = Inr (q, exampleSymbols)
        \<and> getQuote exampleSymbols ''AAPL''
            = Inr (q, exampleSymbols
                        (''AAPL'' \<mapsto> \<lparr>e_spreadBps = 8, e_series = [100, 102], e_index = 1\<rparr>)))
   \<and> (\<exists>q. peekQuote (exampleSymbols
                        (''AAPL'' \<mapsto> \<lparr>e_spreadBps = 8, e_series = [100, 102], e_index = 1\<rparr>)) ''AAPL''
            = Inr (q, exampleSymbols
                        (''AAPL'' \<mapsto> \<lparr>e_spreadBps = 8, e_series = [100, 102], e_index = 1\<rparr>))
        \<and> getQuote (exampleSymbols
                        (''AAPL'' \<mapsto> \<lparr>e_spreadBps = 8, e_series = [100, 102], e_index = 1\<rparr>)) ''AAPL''
            = Inr (q, exampleSymbols
                        (''AAPL'' \<mapsto> \<lparr>e_spreadBps = 8, e_series = [100, 102], e_index = 0\<rparr>)))
   \<and> exampleSymbols ''AAPL'' = Some \<lparr>e_spreadBps = 8, e_series = [100, 102], e_index = 0\<rparr>
   \<and> exampleSymbols ''TSLA'' = Some \<lparr>e_spreadBps = 10, e_series = [200, 204], e_index = 0\<rparr>
   \<and> (exampleSymbols(''AAPL'' \<mapsto> \<lparr>e_spreadBps = 8, e_series = [100, 102], e_index = 1\<rparr>)) ''TSLA''
       = Some \<lparr>e_spreadBps = 10, e_series = [200, 204], e_index = 0\<rparr>"
proof -
  define entry0 where "entry0 = \<lparr>e_spreadBps = 8, e_series = [100 :: real, 102], e_index = 0\<rparr>"
  define entry1 where "entry1 = \<lparr>e_spreadBps = 8, e_series = [100 :: real, 102], e_index = 1\<rparr>"
  define syms1 where "syms1 = exampleSymbols(''AAPL'' \<mapsto> entry1)"
  have 1: "exampleSymbols ''MSFT'' = None" and 2: "exampleSymbols ''AAPL'' = Some entry0"
    and t: "exampleSymbols ''TSLA'' = Some \<lparr>e_spreadBps = 10, e_series = [200, 204], e_index = 0\<rparr>"
    by (simp_all add: exampleSymbols_def entry0_def newReplay_def)
  have 3: "e_index entry0 < length (e_series entry0)" "e_index entry1 < length (e_series entry1)"
    by (simp_all add: entry0_def entry1_def)
  have 4: "entry0\<lparr>e_index := (e_index entry0 + 1) mod length (e_series entry0)\<rparr> = entry1"
    "entry1\<lparr>e_index := (e_index entry1 + 1) mod length (e_series entry1)\<rparr> = entry0"
    by (simp_all add: entry0_def entry1_def)
  have 5: "syms1 ''AAPL'' = Some entry1" by (simp add: syms1_def)
  have 6: "syms1(''AAPL'' \<mapsto> entry0) = exampleSymbols(''AAPL'' \<mapsto> entry0)"
    by (simp add: syms1_def)
  from peekQuote_getQuote_cursor [of exampleSymbols "''MSFT''"] 1
  have a: "peekQuote exampleSymbols ''MSFT'' = Inl UnknownSymbol"
    "getQuote exampleSymbols ''MSFT'' = Inl UnknownSymbol" by blast+
  from peekQuote_getQuote_cursor [of exampleSymbols "''AAPL''"] 2 3(1) 4(1)
  have b: "\<exists>q. peekQuote exampleSymbols ''AAPL'' = Inr (q, exampleSymbols)
             \<and> getQuote exampleSymbols ''AAPL'' = Inr (q, exampleSymbols(''AAPL'' \<mapsto> entry1))"
    by metis
  from peekQuote_getQuote_cursor [of syms1 "''AAPL''"] 5 3(2) 4(2) 6
  have c: "\<exists>q. peekQuote syms1 ''AAPL'' = Inr (q, syms1)
             \<and> getQuote syms1 ''AAPL'' = Inr (q, exampleSymbols(''AAPL'' \<mapsto> entry0))"
    by metis
  have d: "syms1 ''TSLA'' = Some \<lparr>e_spreadBps = 10, e_series = [200, 204], e_index = 0\<rparr>"
    using t by (simp add: syms1_def)
  from a b c 2 t d show ?thesis unfolding syms1_def entry0_def entry1_def by blast
qed


section \<open>The signed position\<close>

lemma applyTrade_positions:
  "map_of (a_positions (snd (applyTrade cfg pf w account order p notional fees))) =
     (let current = (case map_of (a_positions account) (n_symbol order) of
                       Some c \<Rightarrow> c
                     | None \<Rightarrow> \<lparr>p_symbol = n_symbol order, p_quantity = 0, p_avgPrice = 0\<rparr>);
          d = (if sideIsBuy (n_side order) then num_val (n_quantity order)
               else - num_val (n_quantity order));
          updated = updateSignedPosition (Some current) d p
      in (map_of (a_positions account))
           (n_symbol order := positionOf (n_symbol order) (fst updated) (snd updated)))"
  by (simp add: applyTrade_def Let_def split_def positionsDelete_def positionsSet_def
      positionOf_def delete_conv' update_conv')

text \<open>
  C1. With \<open>q\<close> and \<open>a\<close> the quantity and average price on file for the symbol (0 and 0
  when there is no entry), \<open>d \<noteq> 0\<close> the signed fill quantity and \<open>p\<close> the fill price, the
  update goes by four cases, and every quantity and price that it returns is rounded to
  6 decimals: \<open>round6 (q + d)\<close> with the rounded weighted average when
  \<open>q = 0\<close> or the signs agree; no entry when \<open>q + d = 0\<close>; \<open>round6 (q + d)\<close> with \<open>round6 a\<close>
  for a reducing trade; \<open>round6 (q + d)\<close> with \<open>round6 p\<close> after a flip. The account keeps
  an entry for the symbol exactly when the rounded quantity is not 0, and no other entry
  changes. For \<open>q\<close> and \<open>d\<close> of at most 6 decimals the rounded quantity is \<open>q + d\<close> itself.
\<close>

theorem applyTrade_signed_position:
  assumes "current = (case map_of (a_positions account) (n_symbol order) of
                       Some c \<Rightarrow> c
                     | None \<Rightarrow> \<lparr>p_symbol = n_symbol order, p_quantity = 0, p_avgPrice = 0\<rparr>)"
    and "q = p_quantity current" and "a = p_avgPrice current"
    and "d = (if sideIsBuy (n_side order) then num_val (n_quantity order)
              else - num_val (n_quantity order))"
    and "d \<noteq> 0"
    and "account' = snd (applyTrade cfg pf w account order p notional fees)"
  shows "updateSignedPosition (Some current) d p =
           (if q = 0 \<or> sgn q = sgn d
              then (roundMoney (q + d), roundMoney ((\<bar>q\<bar> * a + \<bar>d\<bar> * p) / \<bar>q + d\<bar>))
            else if q + d = 0 then (0, 0)
            else if sgn (q + d) = sgn q then (roundMoney (q + d), roundMoney a)
            else (roundMoney (q + d), roundMoney p))
       \<and> map_of (a_positions account') (n_symbol order) =
           (if q = 0 \<or> sgn q = sgn d
              then positionOf (n_symbol order) (roundMoney (q + d))
                     (roundMoney ((\<bar>q\<bar> * a + \<bar>d\<bar> * p) / \<bar>q + d\<bar>))
            else if q + d = 0 then None
            else if sgn (q + d) = sgn q
              then positionOf (n_symbol order) (roundMoney (q + d)) (roundMoney a)
            else positionOf (n_symbol order) (roundMoney (q + d)) (roundMoney p))
       \<and> (\<forall>other. other \<noteq> n_symbol order \<longrightarrow>
             map_of (a_positions account') other = map_of (a_positions account) other)
       \<and> (roundMoney q = q \<and> roundMoney d = d \<longrightarrow> roundMoney (q + d) = q + d)"
proof -
  have u: "updateSignedPosition (Some current) d p =
           (if q = 0 \<or> sgn q = sgn d
              then (roundMoney (q + d), roundMoney ((\<bar>q\<bar> * a + \<bar>d\<bar> * p) / \<bar>q + d\<bar>))
            else if q + d = 0 then (0, 0)
            else if sgn (q + d) = sgn q then (roundMoney (q + d), roundMoney a)
            else (roundMoney (q + d), roundMoney p))"
    using assms(2,3) by (auto simp: updateSignedPosition_def Let_def)
  have m: "map_of (a_positions account') =
      (map_of (a_positions account))(n_symbol order :=
         positionOf (n_symbol order) (fst (updateSignedPosition (Some current) d p))
           (snd (updateSignedPosition (Some current) d p)))"
    unfolding assms(6) applyTrade_positions assms(1) assms(4) Let_def ..
  have here: "map_of (a_positions account') (n_symbol order) =
           (if q = 0 \<or> sgn q = sgn d
              then positionOf (n_symbol order) (roundMoney (q + d))
                     (roundMoney ((\<bar>q\<bar> * a + \<bar>d\<bar> * p) / \<bar>q + d\<bar>))
            else if q + d = 0 then None
            else if sgn (q + d) = sgn q
              then positionOf (n_symbol order) (roundMoney (q + d)) (roundMoney a)
            else positionOf (n_symbol order) (roundMoney (q + d)) (roundMoney p))"
    unfolding m u by (simp add: positionOf_def)
  have others: "\<forall>other. other \<noteq> n_symbol order \<longrightarrow>
      map_of (a_positions account') other = map_of (a_positions account) other"
    unfolding m by simp
  have grid: "roundMoney q = q \<and> roundMoney d = d \<longrightarrow> roundMoney (q + d) = q + d"
    using roundMoney_add_grid by blast
  from u here others grid show ?thesis by blast
qed

text \<open>
  A long position of 10 at 100 on file, 5 more bought at 103: 15 at an average of 101.
\<close>

theorem applyTrade_signed_position_witness:
  "map_of (a_positions (snd (applyTrade exampleConfig examplePlatform exampleWorld
       (exampleAccount\<lparr>a_positions :=
          [(''AAPL'', \<lparr>p_symbol = ''AAPL'', p_quantity = 10, p_avgPrice = 100\<rparr>)]\<rparr>)
       (exampleOrder ''AAPL'' ''BUY'' 5) 103 515 (1051 / 1000)))) ''AAPL''
     = Some \<lparr>p_symbol = ''AAPL'', p_quantity = 15, p_avgPrice = 101\<rparr>"
proof -
  define account where "account = exampleAccount\<lparr>a_positions :=
          [(''AAPL'', \<lparr>p_symbol = ''AAPL'', p_quantity = 10, p_avgPrice = 100\<rparr>)]\<rparr>"
  define current where "current = \<lparr>p_symbol = ''AAPL'', p_quantity = 10, p_avgPrice = 100\<rparr>"
  define order where "order = exampleOrder ''AAPL'' ''BUY'' 5"
  have 1: "current = (case map_of (a_positions account) (n_symbol order) of
                       Some c \<Rightarrow> c
                     | None \<Rightarrow> \<lparr>p_symbol = n_symbol order, p_quantity = 0, p_avgPrice = 0\<rparr>)"
    by (simp add: account_def current_def order_def exampleOrder_def)
  have 2: "(10::real) = p_quantity current" and 3: "(100::real) = p_avgPrice current"
    by (simp_all add: current_def)
  have 4: "(5::real) = (if sideIsBuy (n_side order) then num_val (n_quantity order)
              else - num_val (n_quantity order))"
    by (simp add: order_def exampleOrder_def sideIsBuy_def)
  have 5: "(5::real) \<noteq> 0" by simp
  have r: "roundMoney 15 = 15" "roundMoney 101 = 101"
    by (simp_all add: roundMoney_def)
  from applyTrade_signed_position [OF 1 2 3 4 5 refl, where cfg = exampleConfig
      and pf = examplePlatform and w = exampleWorld and p = 103 and notional = 515
      and fees = "1051 / 1000"]
  show ?thesis
    unfolding account_def order_def
    by (simp add: r positionOf_def exampleOrder_def)
qed

text \<open>
  A first purchase of 0.1234567 shares puts 0.123457 on file, not \<open>q + d\<close>.
\<close>

theorem updateSignedPosition_quantity_counterexample:
  "fst (updateSignedPosition (Some \<lparr>p_symbol = ''AAPL'', p_quantity = 0, p_avgPrice = 0\<rparr>)
          (1234567 / 10000000) 100)
     \<noteq> 0 + 1234567 / 10000000"
  by (simp add: updateSignedPosition_def roundMoney_def Let_def)


section \<open>Round trips\<close>

lemma applyTrade_from_flat:
  assumes "map_of (a_positions account) (n_symbol order) = None"
  shows "map_of (a_positions (snd (applyTrade cfg pf w account order p notional fees))) (n_symbol order) =
     (let d = (if sideIsBuy (n_side order) then num_val (n_quantity order)
               else - num_val (n_quantity order))
      in positionOf (n_symbol order) (roundMoney d) (roundMoney (\<bar>d\<bar> * p / \<bar>d\<bar>)))"
  unfolding applyTrade_positions using assms
  by (simp add: Let_def updateSignedPosition_def)

lemma applyTrade_closing:
  assumes "map_of (a_positions account) (n_symbol order) = Some c"
    and "d = (if sideIsBuy (n_side order) then num_val (n_quantity order)
              else - num_val (n_quantity order))"
    and "p_quantity c \<noteq> 0" "sgn (p_quantity c) \<noteq> sgn d" "roundMoney (p_quantity c + d) = 0"
  shows "map_of (a_positions (snd (applyTrade cfg pf w account order p notional fees))) (n_symbol order) = None"
  unfolding applyTrade_positions using assms
  by (simp add: Let_def updateSignedPosition_def positionOf_def)

text \<open>
  C9. On an account without a position in the symbol, a fill of \<open>n > 0\<close> on a buy side
  (BUY, BUY_TO_COVER) followed by a fill of \<open>n\<close> on a sell side (SELL, SELL_SHORT), or the
  other way round, leaves no position in the symbol, whatever the two fill prices, provided
  \<open>n\<close> has at most 6 decimals: the first fill puts exactly \<open>n\<close>, or \<open>- n\<close>, on file
  and the second takes it to 0. A quantity with more decimals is rounded when it is put
  on file, and the round trip can leave a remainder.
\<close>

theorem round_trip_leaves_no_position:
  assumes none: "map_of (a_positions account) symbol = None"
    and n: "0 < n" "decimals6 n"
    and o1: "n_symbol o1 = symbol" "n_quantity o1 = Num n"
    and o2: "n_symbol o2 = symbol" "n_quantity o2 = Num n"
    and sides: "(n_side o1 \<in> {''BUY'', ''BUY_TO_COVER''} \<and> n_side o2 \<in> {''SELL'', ''SELL_SHORT''})
              \<or> (n_side o1 \<in> {''SELL'', ''SELL_SHORT''} \<and> n_side o2 \<in> {''BUY'', ''BUY_TO_COVER''})"
    and a1: "account1 = snd (applyTrade cfg pf w1 account o1 p1 notional1 fees1)"
    and a2: "account2 = snd (applyTrade cfg pf w2 account1 o2 p2 notional2 fees2)"
  shows "map_option p_quantity (map_of (a_positions account1) symbol)
           = Some (if n_side o1 \<in> {''BUY'', ''BUY_TO_COVER''} then n else - n)
       \<and> map_of (a_positions account2) symbol = None"
proof -
  define d1 where "d1 = (if sideIsBuy (n_side o1) then n else - n)"
  define d2 where "d2 = (if sideIsBuy (n_side o2) then n else - n)"
  have b: "sideIsBuy (n_side o1) = (n_side o1 \<in> {''BUY'', ''BUY_TO_COVER''})"
    by (simp add: sideIsBuy_def)
  have d: "d2 = - d1" using sides by (auto simp: d1_def d2_def sideIsBuy_def)
  have r1: "roundMoney d1 = d1"
    using roundMoney_decimals6 [OF n(2)] roundMoney_minus [of n] by (simp add: d1_def)
  have nz: "d1 \<noteq> 0" using n(1) by (simp add: d1_def)
  define c where "c = \<lparr>p_symbol = symbol, p_quantity = d1,
                       p_avgPrice = roundMoney (\<bar>d1\<bar> * p1 / \<bar>d1\<bar>)\<rparr>"
  have "map_of (a_positions account1) symbol
          = positionOf symbol (roundMoney d1) (roundMoney (\<bar>d1\<bar> * p1 / \<bar>d1\<bar>))"
    using applyTrade_from_flat [of account o1 cfg pf w1 p1 notional1 fees1] none o1
    by (simp add: a1 d1_def Let_def)
  then have m1: "map_of (a_positions account1) symbol = Some c"
    unfolding r1 using nz by (simp add: positionOf_def c_def)
  have 1: "map_of (a_positions account1) (n_symbol o2) = Some c"
    using m1 o2 by simp
  have 2: "d2 = (if sideIsBuy (n_side o2) then num_val (n_quantity o2)
                 else - num_val (n_quantity o2))"
    using o2 by (simp add: d2_def)
  have 3: "p_quantity c \<noteq> 0" using nz by (simp add: c_def)
  have 4: "sgn (p_quantity c) \<noteq> sgn d2"
    using n(1) d by (auto simp: c_def d1_def)
  have 5: "roundMoney (p_quantity c + d2) = 0" by (simp add: c_def d roundMoney_0)
  from applyTrade_closing [OF 1 2 3 4 5, of cfg pf w2 p2 notional2 fees2]
  have "map_of (a_positions account2) symbol = None"
    using o2 by (simp add: a2)
  moreover have "map_option p_quantity (map_of (a_positions account1) symbol)
           = Some (if n_side o1 \<in> {''BUY'', ''BUY_TO_COVER''} then n else - n)"
    unfolding m1 by (simp add: c_def d1_def b)
  ultimately show ?thesis by blast
qed

text \<open>BUY 2.5 AAPL, then SELL 2.5 AAPL; SELL_SHORT 20 TSLA, then BUY_TO_COVER 20 TSLA.\<close>

theorem round_trip_leaves_no_position_witness:
  "map_option p_quantity (map_of (a_positions (snd (applyTrade exampleConfig examplePlatform exampleWorld
       exampleAccount (exampleOrder ''AAPL'' ''BUY'' (5 / 2)) 100 250 (1025 / 1000)))) ''AAPL'')
     = Some (5 / 2)
   \<and> map_of (a_positions (snd (applyTrade exampleConfig examplePlatform exampleWorld
       (snd (applyTrade exampleConfig examplePlatform exampleWorld exampleAccount
               (exampleOrder ''AAPL'' ''BUY'' (5 / 2)) 100 250 (1025 / 1000)))
       (exampleOrder ''AAPL'' ''SELL'' (5 / 2)) 101 (2525 / 10) (102525 / 100000)))) ''AAPL'' = None
   \<and> map_option p_quantity (map_of (a_positions (snd (applyTrade exampleConfig examplePlatform
       exampleWorld exampleAccount (exampleOrder ''TSLA'' ''SELL_SHORT'' 20) 199 3980 (1398 / 1000))))
         ''TSLA'')
     = Some (- 20)
   \<and> map_of (a_positions (snd (applyTrade exampleConfig examplePlatform exampleWorld
       (snd (applyTrade exampleConfig examplePlatform exampleWorld exampleAccount
               (exampleOrder ''TSLA'' ''SELL_SHORT'' 20) 199 3980 (1398 / 1000)))
       (exampleOrder ''TSLA'' ''BUY_TO_COVER'' 20) 205 4100 (141 / 100)))) ''TSLA'' = None"
proof -
  have 1: "map_of (a_positions exampleAccount) ''AAPL'' = None"
    "map_of (a_positions exampleAccount) ''TSLA'' = None"
    by (simp_all add: exampleAccount_def)
  have 2: "(0::real) < 5 / 2" "(0::real) < 20" by simp_all
  have 3: "decimals6 (5 / 2)" "decimals6 20"
    by (simp_all add: decimals6_def)
  have 4: "n_symbol (exampleOrder ''AAPL'' ''BUY'' (5 / 2)) = ''AAPL''"
    "n_quantity (exampleOrder ''AAPL'' ''BUY'' (5 / 2)) = Num (5 / 2)"
    "n_symbol (exampleOrder ''AAPL'' ''SELL'' (5 / 2)) = ''AAPL''"
    "n_quantity (exampleOrder ''AAPL'' ''SELL'' (5 / 2)) = Num (5 / 2)"
    by (simp_all add: exampleOrder_def)
  have 5: "n_symbol (exampleOrder ''TSLA'' ''SELL_SHORT'' 20) = ''TSLA''"
    "n_quantity (exampleOrder ''TSLA'' ''SELL_SHORT'' 20) = Num 20"
    "n_symbol (exampleOrder ''TSLA'' ''BUY_TO_COVER'' 20) = ''TSLA''"
    "n_quantity (exampleOrder ''TSLA'' ''BUY_TO_COVER'' 20) = Num 20"
    by (simp_all add: exampleOrder_def)
  have 6: "(n_side (exampleOrder ''AAPL'' ''BUY'' (5 / 2)) \<in> {''BUY'', ''BUY_TO_COVER''}
            \<and> n_side (exampleOrder ''AAPL'' ''SELL'' (5 / 2)) \<in> {''SELL'', ''SELL_SHORT''})
         \<or> (n_side (exampleOrder ''AAPL'' ''BUY'' (5 / 2)) \<in> {''SELL'', ''SELL_SHORT''}
            \<and> n_side (exampleOrder ''AAPL'' ''SELL'' (5 / 2)) \<in> {''BUY'', ''BUY_TO_COVER''})"
    by (simp add: exampleOrder_def)
  have 7: "(n_side (exampleOrder ''TSLA'' ''SELL_SHORT'' 20) \<in> {''BUY'', ''BUY_TO_COVER''}
            \<and> n_side (exampleOrder ''TSLA'' ''BUY_TO_COVER'' 20) \<in> {''SELL'', ''SELL_SHORT''})
         \<or> (n_side (exampleOrder ''TSLA'' ''SELL_SHORT'' 20) \<in> {''SELL'', ''SELL_SHORT''}
            \<and> n_side (exampleOrder ''TSLA'' ''BUY_TO_COVER'' 20) \<in> {''BUY'', ''BUY_TO_COVER''})"
    by (simp add: exampleOrder_def)
  have s: "n_side (exampleOrder ''AAPL'' ''BUY'' (5 / 2)) \<in> {''BUY'', ''BUY_TO_COVER''}"
    "n_side (exampleOrder ''TSLA'' ''SELL_SHORT'' 20) \<notin> {''BUY'', ''BUY_TO_COVER''}"
    by (simp_all add: exampleOrder_def)
  from round_trip_leaves_no_position [OF 1(1) 2(1) 3(1) 4 6 refl refl,
      of exampleConfig examplePlatform exampleWorld 100 250 "1025 / 1000"
         exampleWorld 101 "2525 / 10" "102525 / 100000"]
    round_trip_leaves_no_position [OF 1(2) 2(2) 3(2) 5 7 refl refl,
      of exampleConfig examplePlatform exampleWorld 199 3980 "1398 / 1000"
         exampleWorld 205 4100 "141 / 100"]
  show ?thesis
    unfolding if_P [OF s(1)] if_not_P [OF s(2)] by blast
qed

text \<open>
  A purchase of 1/128 = 0.0078125 shares puts 0.007813 on file; selling 0.0078125 leaves
  0.0000005, which is kept as a position of 0.000001.
\<close>

theorem round_trip_residual_counterexample:
  "map_of (a_positions (snd (applyTrade exampleConfig examplePlatform exampleWorld
       (snd (applyTrade exampleConfig examplePlatform exampleWorld exampleAccount
               (exampleOrder ''AAPL'' ''BUY'' (1 / 128)) 100 (78125 / 100000) (1000078 / 1000000)))
       (exampleOrder ''AAPL'' ''SELL'' (1 / 128)) 101 (789063 / 1000000) (1000079 / 1000000)))) ''AAPL''
     = Some \<lparr>p_symbol = ''AAPL'', p_quantity = 1 / 1000000, p_avgPrice = 100\<rparr>"
  by (simp add: applyTrade_positions exampleAccount_def exampleOrder_def sideIsBuy_def
      updateSignedPosition_def positionOf_def roundMoney_def Let_def)


section \<open>Metrics at the observation points\<close>

lemma metricsLoop_marketValue:
  "metricsLoop syms ps (l, s, m) = Inr (l', s', m') \<Longrightarrow>
     m' = m + (\<Sum>(k, p) \<leftarrow> ps. p_quantity p * midOf syms (p_symbol p))"
proof (induction ps arbitrary: l s m)
  case Nil
  then show ?case by simp
next
  case (Cons kp ps)
  obtain k p where kp: "kp = (k, p)" by (cases kp)
  from Cons.prems obtain q syms' where pq: "peekQuote syms (p_symbol p) = Inr (q, syms')"
    by (auto simp: kp split: sum.splits)
  then have mid: "midOf syms (p_symbol p) = q_mid q" by (simp add: midOf_def)
  from Cons.prems pq have "metricsLoop syms ps
       (if p_quantity p > 0 then l + p_quantity p * q_mid q else l,
        if p_quantity p > 0 then s
        else if p_quantity p < 0 then s + \<bar>p_quantity p\<bar> * q_mid q else s,
        m + p_quantity p * q_mid q) = Inr (l', s', m')"
    by (simp add: kp Let_def)
  from Cons.IH [OF this] show ?case by (simp add: kp mid)
qed

lemma peekQuote_configured:
  "syms symbol = Some entry \<Longrightarrow> e_index entry < length (e_series entry) \<Longrightarrow>
     \<exists>q. peekQuote syms symbol = Inr (q, syms)"
  by (simp add: peekQuote_def quote_def Let_def)

lemma metricsLoop_returns:
  "quotable syms ps \<Longrightarrow> \<exists>r. metricsLoop syms ps acc = Inr r"
proof (induction ps arbitrary: acc)
  case Nil
  then show ?case by (cases acc) auto
next
  case (Cons kp ps)
  obtain k p where kp: "kp = (k, p)" by (cases kp)
  obtain l s m where acc: "acc = (l, s, m)" by (cases acc)
  from Cons.prems obtain entry
    where "syms (p_symbol p) = Some entry" "e_index entry < length (e_series entry)"
    and rest: "quotable syms ps"
    by (auto simp: quotable_def kp split: option.splits)
  then obtain q where "peekQuote syms (p_symbol p) = Inr (q, syms)"
    using peekQuote_configured by blast
  then show ?case using Cons.IH [OF rest] by (simp add: kp acc Let_def)
qed

lemma computeMetrics_cash_equity:
  assumes "computeMetrics cfg syms account = Inr m"
  shows "m_availableCash m
           = roundMoney (a_settledCash account - a_reservedCash account - a_feesDue account)"
    and "m_equity m = roundMoney (a_settledCash account + a_unsettledCash account
           + (\<Sum>(k, p) \<leftarrow> a_positions account. p_quantity p * midOf syms (p_symbol p))
           - a_feesDue account)"
proof -
  from assms obtain l s mv
    where loop: "metricsLoop syms (a_positions account) (0, 0, 0) = Inr (l, s, mv)"
    by (auto simp: computeMetrics_def split: sum.splits)
  from metricsLoop_marketValue [OF loop]
  have mv: "mv = (\<Sum>(k, p) \<leftarrow> a_positions account. p_quantity p * midOf syms (p_symbol p))"
    by simp
  from assms loop show "m_availableCash m
           = roundMoney (a_settledCash account - a_reservedCash account - a_feesDue account)"
    by (auto simp: computeMetrics_def Let_def split_def availableCash_def)
  from assms loop show "m_equity m = roundMoney (a_settledCash account + a_unsettledCash account
           + (\<Sum>(k, p) \<leftarrow> a_positions account. p_quantity p * midOf syms (p_symbol p))
           - a_feesDue account)"
    by (auto simp: computeMetrics_def Let_def split_def mv)
qed

lemma computeMetrics_returns:
  "quotable syms (a_positions account) \<Longrightarrow> \<exists>m. computeMetrics cfg syms account = Inr m"
proof -
  assume "quotable syms (a_positions account)"
  from metricsLoop_returns [OF this]
  obtain r where "metricsLoop syms (a_positions account) (0, 0, 0) = Inr r"
    by blast
  then show ?thesis
    by (cases r) (simp add: computeMetrics_def Let_def split_def)
qed

text \<open>
  C4. Whenever metrics are computed, and in every account view (\<open>getAccount\<close> computes it
  on the refreshed account), \<open>availableCash\<close> is \<open>settledCash - reservedCash - feesDue\<close>
  and \<open>equity\<close> is \<open>settledCash + unsettledCash +\<close> the sum over the positions of
  \<open>quantity * mid\<close> \<open>- feesDue\<close>, each rounded to 6 decimals; \<open>mid\<close> is the mid of the
  quote that \<open>peekQuote\<close> gives. The computation returns when every position's symbol
  can be quoted.
\<close>

theorem metrics_availableCash_equity:
  "(\<forall>m. computeMetrics cfg syms account = Inr m \<longrightarrow>
       m_availableCash m
         = roundMoney (a_settledCash account - a_reservedCash account - a_feesDue account)
     \<and> m_equity m = roundMoney (a_settledCash account + a_unsettledCash account
           + (\<Sum>(k, p) \<leftarrow> a_positions account. p_quantity p * midOf syms (p_symbol p))
           - a_feesDue account))
   \<and> (\<forall>v. toAccountView cfg syms account = Inr v \<longrightarrow>
       v_availableCash v
         = roundMoney (a_settledCash account - a_reservedCash account - a_feesDue account)
     \<and> v_equity v = roundMoney (a_settledCash account + a_unsettledCash account
           + (\<Sum>(k, p) \<leftarrow> a_positions account. p_quantity p * midOf syms (p_symbol p))
           - a_feesDue account))
   \<and> (\<forall>depth pf w0 account0 v w. getAccount depth cfg pf (w0, account0) = Some (Inr (v, w, account))
         \<and> syms = w_symbols w \<longrightarrow>
       v_availableCash v
         = roundMoney (a_settledCash account - a_reservedCash account - a_feesDue account)
     \<and> v_equity v = roundMoney (a_settledCash account + a_unsettledCash account
           + (\<Sum>(k, p) \<leftarrow> a_positions account. p_quantity p * midOf syms (p_symbol p))
           - a_feesDue account))
   \<and> (quotable syms (a_positions account) \<longrightarrow>
        (\<exists>m. computeMetrics cfg syms account = Inr m)
        \<and> (\<exists>v. toAccountView cfg syms account = Inr v))"
proof -
  have b: "v_availableCash v
         = roundMoney (a_settledCash account - a_reservedCash account - a_feesDue account)
     \<and> v_equity v = roundMoney (a_settledCash account + a_unsettledCash account
           + (\<Sum>(k, p) \<leftarrow> a_positions account. p_quantity p * midOf syms (p_symbol p))
           - a_feesDue account)"
    if "toAccountView cfg syms account = Inr v" for v
  proof -
    from that obtain m where m: "computeMetrics cfg syms account = Inr m"
      and v: "v_availableCash v = roundMoney (m_availableCash m)" "v_equity v = m_equity m"
      by (auto simp: toAccountView_def split: sum.splits)
    from computeMetrics_cash_equity [OF m] v show ?thesis by (simp add: roundMoney_idem)
  qed
  have g: "toAccountView cfg syms account = Inr v"
    if "getAccount depth cfg pf (w0, account0) = Some (Inr (v, w, account))" "syms = w_symbols w"
    for depth pf w0 account0 v w
    using that by (auto simp: getAccount_def split: option.splits sum.splits)
  have c: "(\<exists>m. computeMetrics cfg syms account = Inr m)
        \<and> (\<exists>v. toAccountView cfg syms account = Inr v)"
    if "quotable syms (a_positions account)"
    using computeMetrics_returns [OF that, of cfg] by (auto simp: toAccountView_def)
  from computeMetrics_cash_equity b g c show ?thesis by blast
qed

text \<open>Ten AAPL bought for 1000 and not yet settled, one unit of fees due, mid at 100.\<close>

theorem metrics_availableCash_equity_witness:
  "\<exists>m. computeMetrics exampleConfig exampleSymbols
          (exampleAccount\<lparr>a_reservedCash := 1000, a_feesDue := 1, a_positions :=
             [(''AAPL'', \<lparr>p_symbol = ''AAPL'', p_quantity = 10, p_avgPrice = 100\<rparr>)]\<rparr>) = Inr m
       \<and> m_availableCash m = 98999 \<and> m_equity m = 100999"
proof -
  define account where "account = exampleAccount\<lparr>a_reservedCash := 1000, a_feesDue := 1,
      a_positions := [(''AAPL'', \<lparr>p_symbol = ''AAPL'', p_quantity = 10, p_avgPrice = 100\<rparr>)]\<rparr>"
  have q: "quotable exampleSymbols (a_positions account)"
    by (simp add: quotable_def account_def exampleSymbols_def newReplay_def)
  have mid: "midOf exampleSymbols ''AAPL'' = 100"
    by (simp add: midOf_def peekQuote_def quote_def exampleSymbols_def newReplay_def
        roundMoney_def Let_def)
  have r: "roundMoney 98999 = 98999" "roundMoney 100999 = 100999"
    by (simp_all add: roundMoney_def)
  from metrics_availableCash_equity [of exampleConfig exampleSymbols account] q
  obtain m where m: "computeMetrics exampleConfig exampleSymbols account = Inr m"
    by blast
  with metrics_availableCash_equity [of exampleConfig exampleSymbols account]
  have "m_availableCash m
         = roundMoney (a_settledCash account - a_reservedCash account - a_feesDue account)"
    "m_equity m = roundMoney (a_settledCash account + a_unsettledCash account
           + (\<Sum>(k, p) \<leftarrow> a_positions account. p_quantity p * midOf exampleSymbols (p_symbol p))
           - a_feesDue account)"
    by blast+
  then have "m_availableCash m = 98999" "m_equity m = 100999"
    by (simp_all add: account_def exampleAccount_def mid r)
  with m show ?thesis unfolding account_def by blast
qed


section \<open>Settlement\<close>

lemma applyDue_cash:
  "(a_settledCash (applyDue due account), a_unsettledCash (applyDue due account),
    a_reservedCash (applyDue due account))
   = foldl settleEntry (a_settledCash account, a_unsettledCash account, a_reservedCash account) due"
proof (induction due arbitrary: account)
  case Nil
  then show ?case by simp
next
  case (Cons entry due)
  show ?case
    by (cases "s_direction entry") (simp_all add: Cons.IH settleEntry_def)
qed

lemma applyDue_frame:
  "a_feesDue (applyDue due account) = a_feesDue account"
  "a_positions (applyDue due account) = a_positions account"
  "a_orders (applyDue due account) = a_orders account"
  "a_fills (applyDue due account) = a_fills account"
  "a_pendingSettlements (applyDue due account) = a_pendingSettlements account"
  "a_lastBorrowFeeDate (applyDue due account) = a_lastBorrowFeeDate account"
  "a_id (applyDue due account) = a_id account"
  by (induction due arbitrary: account; simp)+

lemma settleDueEntries_feesDue:
  "a_feesDue (settleDueEntries now account) = (if a_feesDue account > 0 then 0 else a_feesDue account)"
  by (simp add: settleDueEntries_def Let_def applyDue_frame)

lemma applyBorrowFeesIfNeeded_frame:
  assumes "applyBorrowFeesIfNeeded cfg pf (w, account) = Inr (w', account')"
  shows "a_settledCash account' = a_settledCash account"
    and "a_unsettledCash account' = a_unsettledCash account"
    and "a_reservedCash account' = a_reservedCash account"
    and "a_pendingSettlements account' = a_pendingSettlements account"
    and "a_positions account' = a_positions account"
    and "a_orders account' = a_orders account"
    and "a_fills account' = a_fills account"
    and "w_symbols w' = w_symbols w"
  using assms
  by (auto simp: applyBorrowFeesIfNeeded_def newDate_def Let_def
      split: if_splits sum.splits)


text \<open>Without forced liquidation a refresh returns at every depth above 0.\<close>

lemma refreshAccount_returns:
  "\<not> forceLiquidationEnabled cfg \<Longrightarrow> refreshAccount (Suc depth) cfg pf wa \<noteq> None"
  by (cases wa) (simp add: Let_def split_def split: sum.splits)

lemma applyTrade_feesDue:
  "a_feesDue (snd (applyTrade cfg pf w account order p notional fees))
     = roundMoney (a_feesDue account + fees)"
  by (simp add: applyTrade_def Let_def split_def)

text \<open>
  C3. \<open>#settleDueEntries\<close>, the first step of every refresh, removes from
  \<open>pendingSettlements\<close> the entries with \<open>settleAt \<le> now\<close>, keeps the others as they
  are and in their order, and applies the removed ones in their order: a DEBIT takes its
  amount off \<open>settledCash\<close> and leaves \<open>max 0 (reservedCash - amount)\<close> reserved, a
  CREDIT moves its amount from \<open>unsettledCash\<close> to \<open>settledCash\<close>, each write rounded to
  6 decimals. After that \<open>feesDue\<close> is taken off \<open>settledCash\<close> and set to 0 if it is
  positive; otherwise both stay as they are. Positions, orders and fills are not touched.
  A refresh without forced liquidation returns the account with these cash balances and
  pending entries (the borrow-fee step that follows changes \<open>feesDue\<close> only).
\<close>

theorem settleDueEntries_effect:
  assumes "account' = settleDueEntries now account"
    and "due = filter (\<lambda>entry. s_settleAt entry \<le> now) (a_pendingSettlements account)"
    and "(settled, unsettled, reserved) =
           foldl settleEntry
             (a_settledCash account, a_unsettledCash account, a_reservedCash account) due"
  shows "a_pendingSettlements account'
           = filter (\<lambda>entry. now < s_settleAt entry) (a_pendingSettlements account)
       \<and> a_unsettledCash account' = unsettled
       \<and> a_reservedCash account' = reserved
       \<and> a_settledCash account' =
           (if a_feesDue account > 0 then roundMoney (settled - a_feesDue account) else settled)
       \<and> a_feesDue account' = (if a_feesDue account > 0 then 0 else a_feesDue account)
       \<and> a_positions account' = a_positions account
       \<and> a_orders account' = a_orders account
       \<and> a_fills account' = a_fills account
       \<and> (\<forall>depth cfg pf w w'' account''.
             \<not> forceLiquidationEnabled cfg \<and> now = clock pf (w_clockReads w)
             \<and> refreshAccount depth cfg pf (w, account) = Some (Inr (w'', account'')) \<longrightarrow>
             a_pendingSettlements account'' = a_pendingSettlements account'
             \<and> a_settledCash account'' = a_settledCash account'
             \<and> a_unsettledCash account'' = a_unsettledCash account'
             \<and> a_reservedCash account'' = a_reservedCash account')"
proof -
  define base where "base = account\<lparr>a_pendingSettlements :=
      filter (\<lambda>entry. \<not> s_settleAt entry \<le> now) (a_pendingSettlements account)\<rparr>"
  have cash: "(a_settledCash (applyDue due base), a_unsettledCash (applyDue due base),
               a_reservedCash (applyDue due base)) = (settled, unsettled, reserved)"
    unfolding applyDue_cash assms(3) by (simp add: base_def)
  have acc: "account' = (if a_feesDue (applyDue due base) > 0
      then (applyDue due base)\<lparr>a_settledCash :=
               roundMoney (a_settledCash (applyDue due base) - a_feesDue (applyDue due base)),
             a_feesDue := 0\<rparr>
      else applyDue due base)"
    unfolding assms(1,2) settleDueEntries_def base_def Let_def ..
  have nl: "(\<lambda>entry. \<not> s_settleAt entry \<le> now) = (\<lambda>entry. now < s_settleAt entry)"
    by (auto simp: fun_eq_iff)
  have settle: "a_pendingSettlements account'
           = filter (\<lambda>entry. now < s_settleAt entry) (a_pendingSettlements account)
       \<and> a_unsettledCash account' = unsettled
       \<and> a_reservedCash account' = reserved
       \<and> a_settledCash account' =
           (if a_feesDue account > 0 then roundMoney (settled - a_feesDue account) else settled)
       \<and> a_feesDue account' = (if a_feesDue account > 0 then 0 else a_feesDue account)
       \<and> a_positions account' = a_positions account
       \<and> a_orders account' = a_orders account
       \<and> a_fills account' = a_fills account"
    using cash unfolding acc by (simp add: applyDue_frame base_def nl)
  have refresh: "a_pendingSettlements account'' = a_pendingSettlements account'
             \<and> a_settledCash account'' = a_settledCash account'
             \<and> a_unsettledCash account'' = a_unsettledCash account'
             \<and> a_reservedCash account'' = a_reservedCash account'"
    if off: "\<not> forceLiquidationEnabled cfg" and now: "now = clock pf (w_clockReads w)"
      and ret: "refreshAccount depth cfg pf (w, account) = Some (Inr (w'', account''))"
    for depth cfg pf w w'' account''
  proof (cases depth)
    case 0
    with ret show ?thesis by simp
  next
    case (Suc d)
    from ret off have "applyBorrowFeesIfNeeded cfg pf
        (w\<lparr>w_clockReads := Suc (w_clockReads w)\<rparr>, account') = Inr (w'', account'')"
      unfolding Suc assms(1) now
      by (simp add: newDate_def Let_def split: sum.splits)
    from applyBorrowFeesIfNeeded_frame [OF this] show ?thesis by simp
  qed
  from settle refresh show ?thesis by blast
qed

text \<open>
  At time 20 a DEBIT of 500 and a CREDIT of 300 are due, a DEBIT of 100 is not, and 2 of
  fees are due.
\<close>

theorem settleDueEntries_effect_witness:
  "a_pendingSettlements (settleDueEntries 20 (exampleAccount\<lparr>a_unsettledCash := 300,
       a_reservedCash := 600, a_feesDue := 2, a_pendingSettlements :=
         [\<lparr>s_amount = 500, s_direction = DEBIT, s_settleAt = 10, s_symbol = ''AAPL''\<rparr>,
          \<lparr>s_amount = 100, s_direction = DEBIT, s_settleAt = 50, s_symbol = ''AAPL''\<rparr>,
          \<lparr>s_amount = 300, s_direction = CREDIT, s_settleAt = 20, s_symbol = ''TSLA''\<rparr>]\<rparr>))
     = [\<lparr>s_amount = 100, s_direction = DEBIT, s_settleAt = 50, s_symbol = ''AAPL''\<rparr>]
   \<and> a_settledCash (settleDueEntries 20 (exampleAccount\<lparr>a_unsettledCash := 300,
       a_reservedCash := 600, a_feesDue := 2, a_pendingSettlements :=
         [\<lparr>s_amount = 500, s_direction = DEBIT, s_settleAt = 10, s_symbol = ''AAPL''\<rparr>,
          \<lparr>s_amount = 100, s_direction = DEBIT, s_settleAt = 50, s_symbol = ''AAPL''\<rparr>,
          \<lparr>s_amount = 300, s_direction = CREDIT, s_settleAt = 20, s_symbol = ''TSLA''\<rparr>]\<rparr>))
     = 99798
   \<and> a_feesDue (settleDueEntries 20 (exampleAccount\<lparr>a_unsettledCash := 300,
       a_reservedCash := 600, a_feesDue := 2, a_pendingSettlements :=
         [\<lparr>s_amount = 500, s_direction = DEBIT, s_settleAt = 10, s_symbol = ''AAPL''\<rparr>,
          \<lparr>s_amount = 100, s_direction = DEBIT, s_settleAt = 50, s_symbol = ''AAPL''\<rparr>,
          \<lparr>s_amount = 300, s_direction = CREDIT, s_settleAt = 20, s_symbol = ''TSLA''\<rparr>]\<rparr>))
     = 0"
proof -
  define account where "account = exampleAccount\<lparr>a_unsettledCash := 300,
       a_reservedCash := 600, a_feesDue := 2, a_pendingSettlements :=
         [\<lparr>s_amount = 500, s_direction = DEBIT, s_settleAt = 10, s_symbol = ''AAPL''\<rparr>,
          \<lparr>s_amount = 100, s_direction = DEBIT, s_settleAt = 50, s_symbol = ''AAPL''\<rparr>,
          \<lparr>s_amount = 300, s_direction = CREDIT, s_settleAt = 20, s_symbol = ''TSLA''\<rparr>]\<rparr>"
  have 3: "(99800, 0, 100) =
      foldl settleEntry (a_settledCash account, a_unsettledCash account, a_reservedCash account)
        (filter (\<lambda>entry. s_settleAt entry \<le> 20) (a_pendingSettlements account))"
    by (simp add: account_def exampleAccount_def settleEntry_def roundMoney_def)
  have r: "roundMoney 99798 = 99798" by (simp add: roundMoney_def)
  from settleDueEntries_effect [OF refl refl 3]
  have "a_pendingSettlements (settleDueEntries 20 account)
          = filter (\<lambda>entry. 20 < s_settleAt entry) (a_pendingSettlements account)"
    and "a_settledCash (settleDueEntries 20 account)
          = (if a_feesDue account > 0 then roundMoney (99800 - a_feesDue account) else 99800)"
    and "a_feesDue (settleDueEntries 20 account)
          = (if a_feesDue account > 0 then 0 else a_feesDue account)"
    by blast+
  moreover have "filter (\<lambda>entry. 20 < s_settleAt entry) (a_pendingSettlements account)
      = [\<lparr>s_amount = 100, s_direction = DEBIT, s_settleAt = 50, s_symbol = ''AAPL''\<rparr>]"
    and "a_feesDue account = 2"
    by (simp_all add: account_def)
  ultimately show ?thesis
    unfolding account_def [symmetric] by (simp add: r)
qed

text \<open>
  Fees that are not positive are not drained: with a commission of -2 (a rebate) a
  purchase for 500 leaves fees of -1.95 due, and settlement leaves them there.
\<close>

theorem settleDueEntries_negative_fees_counterexample:
  "a_feesDue (settleDueEntries 0 (snd (applyTrade (exampleConfig\<lparr>commissionPerTrade := - 2\<rparr>)
      examplePlatform exampleWorld exampleAccount (exampleOrder ''AAPL'' ''BUY'' 5) 100 500
      (calcFees (exampleConfig\<lparr>commissionPerTrade := - 2\<rparr>) 500))))
     = - 195 / 100"
  by (simp add: settleDueEntries_feesDue applyTrade_feesDue calcFees_def exampleConfig_def
      exampleAccount_def roundMoney_def)



section \<open>Rejected orders\<close>

lemma simulatePostTrade_world:
  "simulatePostTrade cfg pf w account order fillPrice notional fees = Inr (r, w') \<Longrightarrow>
     w_symbols w' = w_symbols w"
  by (auto simp: simulatePostTrade_def applyTrade_def newDate_def Let_def split_def
      split: sum.splits if_splits)

lemma orderPricing_world:
  "orderPricing cfg pf order xq w = (fillPrice, notional, fees, w') \<Longrightarrow> w_symbols w' = w_symbols w"
  by (auto simp: orderPricing_def calcSlippageBps_def nextRandom_def Let_def split_def)

lemma placeOrder_execute_rejected:
  assumes "placeOrder_execute cfg pf bypass order baseOrder ts eff xq (w, account) = Inr (result, w', account')"
    and "o_status result = REJECTED"
  shows "account' = account\<lparr>a_orders := result # a_orders account\<rparr> \<and> w_symbols w' = w_symbols w"
proof -
  obtain fillPrice notional fees w1 where pr: "orderPricing cfg pf order xq w = (fillPrice, notional, fees, w1)"
    by (cases "orderPricing cfg pf order xq w") auto
  show ?thesis
  proof (cases bypass)
    case True
    with assms pr show ?thesis
      by (auto simp: placeOrder_execute_def Let_def split_def)
  next
    case False
    with assms pr obtain r w2 where sim: "simulatePostTrade cfg pf w1 account order fillPrice notional fees = Inr (r, w2)"
      by (auto simp: placeOrder_execute_def Let_def split: sum.splits)
    have ws: "w_symbols w2 = w_symbols w"
      using simulatePostTrade_world [OF sim] orderPricing_world [OF pr] by simp
    show ?thesis
    proof (cases r)
      case None
      with assms pr sim False show ?thesis
        by (auto simp: placeOrder_execute_def Let_def split_def)
    next
      case (Some reason)
      with assms pr sim False ws show ?thesis
        by (auto simp: placeOrder_execute_def Let_def rejectOrder_def)
    qed
  qed
qed

lemma placeOrder_fill_rejected:
  assumes "placeOrder_fill cfg pf bypass order baseOrder ts (w, account) = Inr (result, w', account')"
    and "o_status result = REJECTED" and "o_status baseOrder = OPEN"
  shows "account' = account\<lparr>a_orders := result # a_orders account\<rparr>
       \<and> (\<exists>q2 s2. getQuote (w_symbols w) (n_symbol order) = Inr (q2, s2) \<and> w_symbols w' = s2)"
proof -
  from assms(1) obtain xq syms1 where gq: "getQuote (w_symbols w) (n_symbol order) = Inr (xq, syms1)"
    by (auto simp: placeOrder_fill_def split: sum.splits)
  define eff where "eff = (if ts = ''TRIGGERED_TO_MARKET'' then ''MARKET''
                    else if ts = ''TRIGGERED_TO_LIMIT'' then ''LIMIT'' else n_type order)"
  show ?thesis
  proof (cases "evaluateFillCondition eff order xq")
    case False
    with assms gq show ?thesis
      by (auto simp: placeOrder_fill_def Let_def eff_def)
  next
    case True
    with assms(1) gq have "placeOrder_execute cfg pf bypass order baseOrder ts eff xq
        (w\<lparr>w_symbols := syms1\<rparr>, account) = Inr (result, w', account')"
      by (simp add: placeOrder_fill_def Let_def eff_def)
    from placeOrder_execute_rejected [OF this assms(2)] gq show ?thesis by simp
  qed
qed

lemma placeOrder_core_quoted:
  assumes "validateOrderByType (normalizeOrderInput rawOrder) = None"
    and "isMarketOpen cfg pf (clock pf (w_clockReads w))"
    and "getQuote (w_symbols w) (n_symbol (normalizeOrderInput rawOrder)) = Inr (q, syms1)"
  shows "placeOrder_core cfg pf rawOrder (w, account) =
     (case (if \<not> r_bypassMarginCheck rawOrder
            then (case computeMetrics cfg syms1 account of
                    Inl e \<Rightarrow> Inl e
                  | Inr m \<Rightarrow> Inr (hasMaintenanceDeficiency m))
            else Inr False) of
        Inl e \<Rightarrow> Inl e
      | Inr True \<Rightarrow>
          Inr ((baseOrderOf pf w account (normalizeOrderInput rawOrder))
                 \<lparr>o_status := REJECTED,
                  o_reason := Some ''margin deficiency: account below maintenance''\<rparr>,
               worldAfterQuote w syms1,
               account\<lparr>a_orders := (baseOrderOf pf w account (normalizeOrderInput rawOrder))
                 \<lparr>o_status := REJECTED,
                  o_reason := Some ''margin deficiency: account below maintenance''\<rparr>
                   # a_orders account\<rparr>)
      | Inr False \<Rightarrow>
          if evaluateTrigger (normalizeOrderInput rawOrder) q = ''PENDING_TRIGGER''
               \<or> evaluateTrigger (normalizeOrderInput rawOrder) q = ''PENDING_LIMIT''
          then Inr (baseOrderOf pf w account (normalizeOrderInput rawOrder), worldAfterQuote w syms1,
                    account\<lparr>a_orders := baseOrderOf pf w account (normalizeOrderInput rawOrder)
                      # a_orders account\<rparr>)
          else placeOrder_fill cfg pf (r_bypassMarginCheck rawOrder) (normalizeOrderInput rawOrder)
                 (baseOrderOf pf w account (normalizeOrderInput rawOrder))
                 (evaluateTrigger (normalizeOrderInput rawOrder) q) (worldAfterQuote w syms1, account))"
  using assms
  by (simp add: placeOrder_core_def Let_def nextRandom_def newDate_def rejectOrder_def
      baseOrderOf_def worldAfterQuote_def split: sum.splits bool.splits)

lemma placeOrder_core_early:
  "validateOrderByType (normalizeOrderInput rawOrder) = Some e \<Longrightarrow>
     placeOrder_core cfg pf rawOrder (w, account) =
       Inr ((baseOrderOf pf w account (normalizeOrderInput rawOrder))\<lparr>o_status := REJECTED, o_reason := Some e\<rparr>,
            w\<lparr>w_rngCalls := Suc (w_rngCalls w)\<rparr>,
            account\<lparr>a_orders := (baseOrderOf pf w account (normalizeOrderInput rawOrder))
              \<lparr>o_status := REJECTED, o_reason := Some e\<rparr> # a_orders account\<rparr>)"
  "validateOrderByType (normalizeOrderInput rawOrder) = None \<Longrightarrow>
     \<not> isMarketOpen cfg pf (clock pf (w_clockReads w)) \<Longrightarrow>
     placeOrder_core cfg pf rawOrder (w, account) =
       Inr ((baseOrderOf pf w account (normalizeOrderInput rawOrder))
              \<lparr>o_status := REJECTED, o_reason := Some ''market closed''\<rparr>,
            w\<lparr>w_rngCalls := Suc (w_rngCalls w), w_clockReads := Suc (w_clockReads w)\<rparr>,
            account\<lparr>a_orders := (baseOrderOf pf w account (normalizeOrderInput rawOrder))
              \<lparr>o_status := REJECTED, o_reason := Some ''market closed''\<rparr> # a_orders account\<rparr>)"
  "validateOrderByType (normalizeOrderInput rawOrder) = None \<Longrightarrow>
     isMarketOpen cfg pf (clock pf (w_clockReads w)) \<Longrightarrow>
     getQuote (w_symbols w) (n_symbol (normalizeOrderInput rawOrder)) = Inl err \<Longrightarrow>
     placeOrder_core cfg pf rawOrder (w, account) =
       Inr ((baseOrderOf pf w account (normalizeOrderInput rawOrder))
              \<lparr>o_status := REJECTED, o_reason := Some ''unknown symbol''\<rparr>,
            w\<lparr>w_rngCalls := Suc (w_rngCalls w), w_clockReads := Suc (w_clockReads w)\<rparr>,
            account\<lparr>a_orders := (baseOrderOf pf w account (normalizeOrderInput rawOrder))
              \<lparr>o_status := REJECTED, o_reason := Some ''unknown symbol''\<rparr> # a_orders account\<rparr>)"
  by (simp_all add: placeOrder_core_def Let_def nextRandom_def newDate_def rejectOrder_def
      baseOrderOf_def)

lemma placeOrder_core_rejected:
  assumes "placeOrder_core cfg pf rawOrder (w, account) = Inr (result, w', account')"
    and "o_status result = REJECTED"
  shows "account' = account\<lparr>a_orders := result # a_orders account\<rparr>
       \<and> cursorMoves (w_symbols w) (toUpperCase (r_symbol rawOrder)) (w_symbols w')"
proof -
  let ?order = "normalizeOrderInput rawOrder"
  have sym: "toUpperCase (r_symbol rawOrder) = n_symbol ?order"
    by (simp add: normalizeOrderInput_def)
  have bo: "o_status (baseOrderOf pf w account ?order) = OPEN"
    by (simp add: baseOrderOf_def)
  show ?thesis
  proof (cases "validateOrderByType ?order")
    case (Some e)
    from assms(1) show ?thesis
      unfolding placeOrder_core_early(1) [OF Some] by (auto simp: cursorMoves_def)
  next
    case None
    show ?thesis
    proof (cases "isMarketOpen cfg pf (clock pf (w_clockReads w))")
      case False
      from assms(1) show ?thesis
        unfolding placeOrder_core_early(2) [OF None False] by (auto simp: cursorMoves_def)
    next
      case True
      show ?thesis
      proof (cases "getQuote (w_symbols w) (n_symbol ?order)")
        case (Inl e)
        from assms(1) show ?thesis
          unfolding placeOrder_core_early(3) [OF None True Inl] by (auto simp: cursorMoves_def)
      next
        case (Inr qs)
        obtain q syms1 where qs: "getQuote (w_symbols w) (n_symbol ?order) = Inr (q, syms1)"
          using Inr by (cases qs) auto
        note step = placeOrder_core_quoted [OF None True qs, of account]
        let ?guard = "(if \<not> r_bypassMarginCheck rawOrder
                               then (case computeMetrics cfg syms1 account of
                                       Inl e \<Rightarrow> Inl e
                                     | Inr m \<Rightarrow> Inr (hasMaintenanceDeficiency m))
                               else Inr False)"
        show ?thesis
        proof (cases ?guard)
          case (Inl e)
          with assms(1) show ?thesis unfolding step by simp
        next
          case g: (Inr deficient)
          show ?thesis
          proof (cases deficient)
            case True
            with assms(1) g qs show ?thesis
              unfolding step by (auto simp: cursorMoves_def sym worldAfterQuote_def)
          next
            case False
            show ?thesis
            proof (cases "evaluateTrigger ?order q = ''PENDING_TRIGGER''
                      \<or> evaluateTrigger ?order q = ''PENDING_LIMIT''")
              case True
              with assms g False bo show ?thesis
                unfolding step by auto
            next
              case nt: False
              with assms(1) g False
              have "placeOrder_fill cfg pf (r_bypassMarginCheck rawOrder) ?order
                        (baseOrderOf pf w account ?order)
                        (evaluateTrigger ?order q) (worldAfterQuote w syms1, account)
                      = Inr (result, w', account')"
                unfolding step by simp
              from placeOrder_fill_rejected [OF this assms(2) bo] qs show ?thesis
                by (auto simp: cursorMoves_def sym worldAfterQuote_def)
            qed
          qed
        qed
      qed
    qed
  qed
qed

text \<open>
  C10. A \<open>placeOrder\<close> call that returns a REJECTED order, for whatever reason, has
  changed the account that its initial refresh left behind in one way only: the rejected
  order is prepended to the order history. The cash balances, the fees due, the positions,
  the fills and the pending settlements are as the refresh left them. The replay cursor
  of the order's symbol may be one or two quotes further on; no other cursor moves.
\<close>

theorem placeOrder_rejected_atomic:
  assumes "placeOrder depth cfg pf rawOrder (w0, account0) = Some (Inr (result, w', account'))"
    and "o_status result = REJECTED"
  shows "\<exists>w account. refreshAccount depth cfg pf (w0, account0) = Some (Inr (w, account))
       \<and> a_settledCash account' = a_settledCash account
       \<and> a_unsettledCash account' = a_unsettledCash account
       \<and> a_reservedCash account' = a_reservedCash account
       \<and> a_feesDue account' = a_feesDue account
       \<and> a_positions account' = a_positions account
       \<and> a_fills account' = a_fills account
       \<and> a_pendingSettlements account' = a_pendingSettlements account
       \<and> a_orders account' = result # a_orders account
       \<and> account' = account\<lparr>a_orders := result # a_orders account\<rparr>
       \<and> cursorMoves (w_symbols w) (toUpperCase (r_symbol rawOrder)) (w_symbols w')"
proof -
  from assms(1) obtain w account where r: "refreshAccount depth cfg pf (w0, account0) = Some (Inr (w, account))"
    by (auto simp: placeOrder_def placeOrder_with_def split: option.splits sum.splits)
  with assms have "placeOrder_core cfg pf rawOrder (w, account) = Inr (result, w', account')"
    by (auto simp: placeOrder_def placeOrder_with_def split: option.splits sum.splits if_splits)
  from placeOrder_core_rejected [OF this assms(2)] r show ?thesis by auto
qed



section \<open>The fill check\<close>



















section \<open>The simulated margin check\<close>

lemma applyTrade_world:
  "snd (applyTrade cfg pf w account order p notional fees)
     = (snd (applyTrade cfg pf w' account order p notional fees))
         \<lparr>a_pendingSettlements := a_pendingSettlements (snd (applyTrade cfg pf w account order p notional fees))\<rparr>"
  by (simp add: applyTrade_def Let_def split_def newDate_def)

lemma applyTrade_frame:
  "a_orders (snd (applyTrade cfg pf w account order p notional fees)) = a_orders account"
  "a_fills (snd (applyTrade cfg pf w account order p notional fees)) = a_fills account"
  "length (a_pendingSettlements (snd (applyTrade cfg pf w account order p notional fees)))
     = Suc (length (a_pendingSettlements account))"
  by (simp_all add: applyTrade_def Let_def split_def newDate_def)

text \<open>
  C2. At the pricing step, with \<open>fillPrice\<close>, \<open>notional\<close> and \<open>fees\<close> computed, let
  \<open>draft\<close> be the account with the trade applied and \<open>metrics\<close> its metrics. Without the
  bypass flag the order is rejected with reason \<open>insufficient available buying power /
  margin\<close> exactly when \<open>availableCash < 0\<close> or \<open>equity < initialRequired\<close> on the draft,
  and then the account is unchanged but for the rejected order in its history. Otherwise,
  and always with the bypass flag, the order is FILLED: the account gets the positions and
  balances of the draft, one more pending settlement, the filled order and a fill.
\<close>

theorem placeOrder_execute_margin_check:
  assumes pr: "orderPricing cfg pf order executionQuote w = (fillPrice, notional, fees, w1)"
    and dr: "applyTrade cfg pf w1 account order fillPrice notional fees = (w2, draft)"
    and me: "computeMetrics cfg (w_symbols w2) draft = Inr metrics"
    and ins: "insufficient = (availableCash draft < 0 \<or> m_equity metrics < m_initialRequired metrics)"
    and rej: "rejected = baseOrder\<lparr>o_status := REJECTED,
                o_reason := Some ''insufficient available buying power / margin''\<rparr>"
    and fil: "filled = baseOrder\<lparr>o_status := FILLED, o_fillPrice := Some fillPrice, o_fees := fees,
                o_triggerState := Some triggerState, o_effectiveType := Some effectiveType\<rparr>"
    and res: "result = placeOrder_execute cfg pf bypassMarginCheck order baseOrder triggerState
                effectiveType executionQuote (w, account)"
  shows "(\<not> bypassMarginCheck \<and> insufficient \<longrightarrow>
            result = Inr (rejected, w2, account\<lparr>a_orders := rejected # a_orders account\<rparr>))
       \<and> (bypassMarginCheck \<or> \<not> insufficient \<longrightarrow>
            (\<exists>w4 account' fill. result = Inr (filled, w4, account')
               \<and> a_positions account' = a_positions draft
               \<and> a_settledCash account' = a_settledCash draft
               \<and> a_unsettledCash account' = a_unsettledCash draft
               \<and> a_reservedCash account' = a_reservedCash draft
               \<and> a_feesDue account' = a_feesDue draft
               \<and> length (a_pendingSettlements account') = Suc (length (a_pendingSettlements account))
               \<and> a_orders account' = filled # a_orders account
               \<and> a_fills account' = fill # a_fills account))"
proof -
  have sim: "simulatePostTrade cfg pf w1 account order fillPrice notional fees
      = Inr (if insufficient then Some ''insufficient available buying power / margin'' else None, w2)"
    using dr me by (auto simp: simulatePostTrade_def ins)
  have a: "result = Inr (rejected, w2, account\<lparr>a_orders := rejected # a_orders account\<rparr>)"
    if "\<not> bypassMarginCheck" "insufficient"
    using that pr sim by (simp add: res placeOrder_execute_def rejectOrder_def rej Let_def)
  have draft: "draft = snd (applyTrade cfg pf w1 account order fillPrice notional fees)"
    using dr by simp
  have b: "\<exists>w4 account' fill. result = Inr (filled, w4, account')
               \<and> a_positions account' = a_positions draft
               \<and> a_settledCash account' = a_settledCash draft
               \<and> a_unsettledCash account' = a_unsettledCash draft
               \<and> a_reservedCash account' = a_reservedCash draft
               \<and> a_feesDue account' = a_feesDue draft
               \<and> length (a_pendingSettlements account') = Suc (length (a_pendingSettlements account))
               \<and> a_orders account' = filled # a_orders account
               \<and> a_fills account' = fill # a_fills account"
    if "bypassMarginCheck \<or> \<not> insufficient"
  proof -
    define wt where "wt = (if bypassMarginCheck then w1 else w2)"
    obtain w3 account1 where at: "applyTrade cfg pf wt account order fillPrice notional fees = (w3, account1)"
      by (cases "applyTrade cfg pf wt account order fillPrice notional fees")
    have "(if \<not> bypassMarginCheck
               then simulatePostTrade cfg pf w1 account order fillPrice notional fees
               else Inr (None, w1)) = Inr (None, wt)"
      using that sim by (auto simp: wt_def)
    then have r: "result = Inr (filled, w3\<lparr>w_rngCalls := Suc (w_rngCalls w3)\<rparr>,
        account1\<lparr>a_orders := filled # a_orders account1,
          a_fills := \<lparr>f_id = \<lfloor>rng pf (w_rngCalls w3) * 10000\<rfloor>, f_orderId = o_id filled,
                      f_accountId = a_id account, f_symbol = n_symbol order, f_side = n_side order,
                      f_quantity = num_val (n_quantity order), f_price = fillPrice,
                      f_notional = notional, f_fees = fees\<rparr> # a_fills account1\<rparr>)"
      using pr at by (simp add: res placeOrder_execute_def fil Let_def nextRandom_def)
    have a1: "account1 = snd (applyTrade cfg pf wt account order fillPrice notional fees)"
      using at by simp
    have same: "account1 = draft\<lparr>a_pendingSettlements := a_pendingSettlements account1\<rparr>"
      unfolding a1 draft by (rule applyTrade_world)
    have eqs: "a_positions account1 = a_positions draft" "a_settledCash account1 = a_settledCash draft"
      "a_unsettledCash account1 = a_unsettledCash draft" "a_reservedCash account1 = a_reservedCash draft"
      "a_feesDue account1 = a_feesDue draft"
      by (subst same, simp)+
    show ?thesis
      unfolding r using eqs applyTrade_frame [of cfg pf wt account order fillPrice notional fees]
      by (simp add: a1 [symmetric])
  qed
  from a b show ?thesis by blast
qed



section \<open>Orders on the example account\<close>

lemma refresh_example:
  "refreshAccount 1 exampleConfig examplePlatform (exampleWorld, exampleAccount)
     = Some (Inr (exampleWorld\<lparr>w_clockReads := 2\<rparr>, exampleAccount))"
  by (simp add: newDate_def settleDueEntries_def applyBorrowFeesIfNeeded_def toIsoDate_def
      exampleConfig_def examplePlatform_def exampleWorld_def exampleAccount_def Let_def)

text \<open>The MARKET order with GTC of the unit tests, on the fresh example account.\<close>

theorem placeOrder_rejected_atomic_witness:
  "\<exists>result w' account'. placeOrder 1 exampleConfig examplePlatform
        (exampleRaw ''AAPL'' ''MARKET'' ''BUY'' ''GTC'' 1 Null) (exampleWorld, exampleAccount)
      = Some (Inr (result, w', account'))
    \<and> o_status result = REJECTED
    \<and> o_reason result = Some ''unsupported order type/tif combination''
    \<and> a_settledCash account' = 100000
    \<and> a_positions account' = []
    \<and> a_orders account' = [result]
    \<and> cursorMoves exampleSymbols ''AAPL'' (w_symbols w')"
proof -
  define raw where "raw = exampleRaw ''AAPL'' ''MARKET'' ''BUY'' ''GTC'' 1 Null"
  define w where "w = exampleWorld\<lparr>w_clockReads := 2\<rparr>"
  define result where "result = (baseOrderOf examplePlatform w exampleAccount (normalizeOrderInput raw))
      \<lparr>o_status := REJECTED, o_reason := Some ''unsupported order type/tif combination''\<rparr>"
  define account' where "account' = exampleAccount\<lparr>a_orders := result # a_orders exampleAccount\<rparr>"
  define w' where "w' = w\<lparr>w_rngCalls := Suc (w_rngCalls w)\<rparr>"
  have v: "validateOrderByType (normalizeOrderInput raw) = Some ''unsupported order type/tif combination''"
    by (simp add: raw_def exampleRaw_def normalizeOrderInput_def toUpperCase_def
        validateOrderByType_def VALID_TYPES_def VALID_SIDES_def VALID_TIFS_def)
  have s: "o_status result = REJECTED"
    and r: "o_reason result = Some ''unsupported order type/tif combination''"
    by (simp_all add: result_def)
  have p: "placeOrder 1 exampleConfig examplePlatform raw (exampleWorld, exampleAccount)
      = Some (Inr (result, w', account'))"
    unfolding placeOrder_def placeOrder_with_def refresh_example
    by (simp add: placeOrder_core_early(1) [OF v] w_def [symmetric] result_def [symmetric] s
        account'_def w'_def)
  from placeOrder_rejected_atomic [OF p s]
  obtain w1 account1
    where "refreshAccount 1 exampleConfig examplePlatform (exampleWorld, exampleAccount)
             = Some (Inr (w1, account1))"
      and f: "a_settledCash account' = a_settledCash account1"
        "a_positions account' = a_positions account1"
        "a_orders account' = result # a_orders account1"
        "cursorMoves (w_symbols w1) (toUpperCase (r_symbol raw)) (w_symbols w')"
    by blast
  then have "w1 = w" "account1 = exampleAccount"
    unfolding refresh_example by (simp_all add: w_def)
  with f have "a_settledCash account' = 100000" "a_positions account' = []"
    "a_orders account' = [result]" "cursorMoves exampleSymbols ''AAPL'' (w_symbols w')"
    by (simp_all add: exampleAccount_def w_def exampleWorld_def raw_def exampleRaw_def toUpperCase_def)
  with p s r show ?thesis unfolding raw_def by blast
qed















lemma placeOrder_execute_bypass:
  "o_status (fst (projr (placeOrder_execute cfg pf True order baseOrder triggerState effectiveType
       executionQuote (w, account)))) = FILLED"
  by (simp add: placeOrder_execute_def Let_def split_def)

lemma orderPricing_example:
  "orderPricing exampleConfig examplePlatform (exampleOrder ''AAPL'' ''BUY'' 10000) exampleQuote exampleWorld
     = (10006501 / 100000, 10006501 / 10, 10106501 / 100000, exampleWorld\<lparr>w_rngCalls := 1\<rparr>)"
  by (simp add: orderPricing_def calcSlippageBps_def applyPriceImpact_def calcFees_def nextRandom_def
      sideIsBuy_def exampleOrder_def exampleQuote_def exampleConfig_def examplePlatform_def
      exampleWorld_def roundMoney_def Let_def)

lemma applyTrade_example:
  "a_positions (snd (applyTrade exampleConfig examplePlatform (exampleWorld\<lparr>w_rngCalls := 1\<rparr>) poorAccount
       (exampleOrder ''AAPL'' ''BUY'' 10000) (10006501 / 100000) (10006501 / 10) (10106501 / 100000)))
     = [(''AAPL'', \<lparr>p_symbol = ''AAPL'', p_quantity = 10000, p_avgPrice = 10006501 / 100000\<rparr>)]"
  "w_symbols (fst (applyTrade exampleConfig examplePlatform (exampleWorld\<lparr>w_rngCalls := 1\<rparr>) poorAccount
       (exampleOrder ''AAPL'' ''BUY'' 10000) (10006501 / 100000) (10006501 / 10) (10106501 / 100000)))
     = exampleSymbols"
  "availableCash (snd (applyTrade exampleConfig examplePlatform (exampleWorld\<lparr>w_rngCalls := 1\<rparr>) poorAccount
       (exampleOrder ''AAPL'' ''BUY'' 10000) (10006501 / 100000) (10006501 / 10) (10106501 / 100000)))
     = - 100025116501 / 100000"
  by (simp_all add: applyTrade_def updateSignedPosition_def positionsSet_def positionsDelete_def
      availableCash_def newDate_def sideIsBuy_def exampleOrder_def poorAccount_def exampleAccount_def
      exampleWorld_def roundMoney_def Let_def split_def)

text \<open>A capital of 500 does not buy 10000 AAPL.\<close>

theorem placeOrder_execute_margin_check_witness:
  "\<exists>w2. placeOrder_execute exampleConfig examplePlatform False (exampleOrder ''AAPL'' ''BUY'' 10000)
       (baseOrderOf examplePlatform exampleWorld poorAccount (exampleOrder ''AAPL'' ''BUY'' 10000))
       ''NOT_REQUIRED'' ''MARKET'' exampleQuote (exampleWorld, poorAccount)
     = Inr ((baseOrderOf examplePlatform exampleWorld poorAccount (exampleOrder ''AAPL'' ''BUY'' 10000))
              \<lparr>o_status := REJECTED,
               o_reason := Some ''insufficient available buying power / margin''\<rparr>,
            w2,
            poorAccount\<lparr>a_orders :=
              [(baseOrderOf examplePlatform exampleWorld poorAccount (exampleOrder ''AAPL'' ''BUY'' 10000))
                 \<lparr>o_status := REJECTED,
                  o_reason := Some ''insufficient available buying power / margin''\<rparr>]\<rparr>)"
proof -
  define order where "order = exampleOrder ''AAPL'' ''BUY'' 10000"
  define w1 where "w1 = exampleWorld\<lparr>w_rngCalls := 1\<rparr>"
  define w2 where "w2 = fst (applyTrade exampleConfig examplePlatform w1 poorAccount order
      (10006501 / 100000) (10006501 / 10) (10106501 / 100000))"
  define draft where "draft = snd (applyTrade exampleConfig examplePlatform w1 poorAccount order
      (10006501 / 100000) (10006501 / 10) (10106501 / 100000))"
  have pr: "orderPricing exampleConfig examplePlatform order exampleQuote exampleWorld
      = (10006501 / 100000, 10006501 / 10, 10106501 / 100000, w1)"
    unfolding order_def w1_def by (rule orderPricing_example)
  have dr: "applyTrade exampleConfig examplePlatform w1 poorAccount order
      (10006501 / 100000) (10006501 / 10) (10106501 / 100000) = (w2, draft)"
    by (simp add: w2_def draft_def)
  have "quotable (w_symbols w2) (a_positions draft)"
    unfolding w2_def draft_def w1_def order_def applyTrade_example
    by (simp add: quotable_def exampleSymbols_def newReplay_def)
  from computeMetrics_returns [OF this]
  obtain metrics where me: "computeMetrics exampleConfig (w_symbols w2) draft = Inr metrics"
    by blast
  have ins: "True = (availableCash draft < 0 \<or> m_equity metrics < m_initialRequired metrics)"
    unfolding draft_def w1_def order_def applyTrade_example by simp
  have e: "a_orders poorAccount = []"
    by (simp add: poorAccount_def exampleAccount_def)
  from placeOrder_execute_margin_check [OF pr dr me ins refl refl refl,
      where bypassMarginCheck = False
        and baseOrder = "baseOrderOf examplePlatform exampleWorld poorAccount order"
        and triggerState = "''NOT_REQUIRED''" and effectiveType = "''MARKET''"]
  have "placeOrder_execute exampleConfig examplePlatform False order
       (baseOrderOf examplePlatform exampleWorld poorAccount order)
       ''NOT_REQUIRED'' ''MARKET'' exampleQuote (exampleWorld, poorAccount)
     = Inr ((baseOrderOf examplePlatform exampleWorld poorAccount order)
              \<lparr>o_status := REJECTED,
               o_reason := Some ''insufficient available buying power / margin''\<rparr>,
            w2,
            poorAccount\<lparr>a_orders :=
              (baseOrderOf examplePlatform exampleWorld poorAccount order)
                 \<lparr>o_status := REJECTED,
                  o_reason := Some ''insufficient available buying power / margin''\<rparr>
                # a_orders poorAccount\<rparr>)"
    by blast
  then show ?thesis
    unfolding e order_def by blast
qed

text \<open>
  With the bypass flag the same order is filled, although the trade leaves the available
  cash of the account below 0.
\<close>

theorem placeOrder_bypass_counterexample:
  "o_status (fst (projr (placeOrder_execute exampleConfig examplePlatform True
       (exampleOrder ''AAPL'' ''BUY'' 10000)
       (baseOrderOf examplePlatform exampleWorld poorAccount (exampleOrder ''AAPL'' ''BUY'' 10000))
       ''NOT_REQUIRED'' ''MARKET'' exampleQuote (exampleWorld, poorAccount)))) = FILLED
   \<and> orderPricing exampleConfig examplePlatform (exampleOrder ''AAPL'' ''BUY'' 10000) exampleQuote
        exampleWorld
       = (10006501 / 100000, 10006501 / 10, 10106501 / 100000, exampleWorld\<lparr>w_rngCalls := 1\<rparr>)
   \<and> availableCash (snd (applyTrade exampleConfig examplePlatform (exampleWorld\<lparr>w_rngCalls := 1\<rparr>)
        poorAccount (exampleOrder ''AAPL'' ''BUY'' 10000)
        (10006501 / 100000) (10006501 / 10) (10106501 / 100000))) < 0"
proof (intro conjI)
  show "o_status (fst (projr (placeOrder_execute exampleConfig examplePlatform True
       (exampleOrder ''AAPL'' ''BUY'' 10000)
       (baseOrderOf examplePlatform exampleWorld poorAccount (exampleOrder ''AAPL'' ''BUY'' 10000))
       ''NOT_REQUIRED'' ''MARKET'' exampleQuote (exampleWorld, poorAccount)))) = FILLED"
    by (rule placeOrder_execute_bypass)
  show "orderPricing exampleConfig examplePlatform (exampleOrder ''AAPL'' ''BUY'' 10000) exampleQuote
        exampleWorld
       = (10006501 / 100000, 10006501 / 10, 10106501 / 100000, exampleWorld\<lparr>w_rngCalls := 1\<rparr>)"
    by (rule orderPricing_example)
  show "availableCash (snd (applyTrade exampleConfig examplePlatform (exampleWorld\<lparr>w_rngCalls := 1\<rparr>)
        poorAccount (exampleOrder ''AAPL'' ''BUY'' 10000)
        (10006501 / 100000) (10006501 / 10) (10106501 / 100000))) < 0"
    unfolding applyTrade_example by simp
qed



section \<open>Forced liquidation\<close>

lemma metricsLoop_peeks:
  "metricsLoop syms ps acc = Inr r \<Longrightarrow>
     (\<exists>v. shortValueLoop syms ps sv = Inr v) \<and> (\<exists>wv. withValueLoop syms ps = Inr wv \<and> length wv = length ps)"
proof (induction ps arbitrary: acc sv)
  case Nil
  then show ?case by simp
next
  case (Cons kp ps)
  obtain k p where kp: "kp = (k, p)" by (cases kp)
  obtain l s m where acc: "acc = (l, s, m)" by (cases acc)
  from Cons.prems obtain q syms' where pq: "peekQuote syms (p_symbol p) = Inr (q, syms')"
    by (auto simp: kp acc split: sum.splits)
  with Cons.prems obtain acc' where "metricsLoop syms ps acc' = Inr r"
    by (auto simp: kp acc Let_def)
  note ih = Cons.IH [OF this]
  from ih obtain wv where wv: "withValueLoop syms ps = Inr wv" "length wv = length ps"
    by blast
  have every: "\<exists>v. shortValueLoop syms ps sv' = Inr v" for sv'
    using ih by blast
  show ?case
    using every by (simp add: kp pq wv)
qed

lemma liquidationDue_iff:
  assumes "metricsLoop syms (a_positions account) (0, 0, 0) = Inr (l, s, mv)"
  shows "liquidationDue cfg syms account \<longleftrightarrow>
     roundMoney (a_settledCash account + a_unsettledCash account + mv - a_feesDue account)
       < roundMoney (maintenanceMarginLong cfg * l + maintenanceMarginShort cfg * s)"
  using assms
  by (simp add: liquidationDue_def computeMetrics_def calculateMarginRequirements_def
      hasMaintenanceDeficiency_def Let_def)

lemma liquidationDue_loop:
  "liquidationDue cfg syms account \<Longrightarrow> \<exists>l s mv. metricsLoop syms (a_positions account) (0, 0, 0) = Inr (l, s, mv)"
  by (auto simp: liquidationDue_def computeMetrics_def split: sum.splits)

lemma roundMoney_diff_grid:
  assumes "roundMoney x = x" "roundMoney y = y"
  shows "roundMoney (x - y) = x - y"
proof -
  have "roundMoney (- y) = - y" using assms(2) by (simp add: roundMoney_minus)
  from roundMoney_add_grid [OF assms(1) this] show ?thesis by simp
qed

lemma settle_keeps_due:
  assumes "liquidationDue cfg syms account" "a_pendingSettlements account = []"
    "roundMoney (a_settledCash account) = a_settledCash account"
    "roundMoney (a_feesDue account) = a_feesDue account"
  shows "liquidationDue cfg syms (settleDueEntries now account)"
    and "a_positions (settleDueEntries now account) = a_positions account"
    and "a_pendingSettlements (settleDueEntries now account) = []"
    and "roundMoney (a_settledCash (settleDueEntries now account)) = a_settledCash (settleDueEntries now account)"
    and "a_feesDue (settleDueEntries now account) = 0 \<or> a_feesDue (settleDueEntries now account) = a_feesDue account"
proof -
  from liquidationDue_loop [OF assms(1)] obtain l s mv
    where loop: "metricsLoop syms (a_positions account) (0, 0, 0) = Inr (l, s, mv)" by blast
  have p: "a_positions (settleDueEntries now account) = a_positions account"
    using assms(2) by (simp add: settleDueEntries_def Let_def)
  show "a_positions (settleDueEntries now account) = a_positions account" by (rule p)
  show "a_pendingSettlements (settleDueEntries now account) = []"
    using assms(2) by (simp add: settleDueEntries_def Let_def)
  show "roundMoney (a_settledCash (settleDueEntries now account)) = a_settledCash (settleDueEntries now account)"
    using assms(2,3) by (simp add: settleDueEntries_def Let_def roundMoney_idem)
  show "a_feesDue (settleDueEntries now account) = 0 \<or> a_feesDue (settleDueEntries now account) = a_feesDue account"
    using assms(2) by (simp add: settleDueEntries_def Let_def)
  have eq: "a_settledCash (settleDueEntries now account) + a_unsettledCash (settleDueEntries now account)
          + mv - a_feesDue (settleDueEntries now account)
        = a_settledCash account + a_unsettledCash account + mv - a_feesDue account"
    using assms(2) roundMoney_diff_grid [OF assms(3,4)]
    by (simp add: settleDueEntries_def Let_def)
  have loop': "metricsLoop syms (a_positions (settleDueEntries now account)) (0, 0, 0) = Inr (l, s, mv)"
    unfolding p by (rule loop)
  show "liquidationDue cfg syms (settleDueEntries now account)"
    using assms(1) unfolding liquidationDue_iff [OF loop'] liquidationDue_iff [OF loop] eq .
qed


lemma borrow_keeps_due:
  assumes due: "liquidationDue cfg syms account" and ws: "w_symbols w = syms"
    and fees: "roundMoney (a_feesDue account) = a_feesDue account"
  shows "\<exists>w' account'. applyBorrowFeesIfNeeded cfg pf (w, account) = Inr (w', account')
       \<and> w_symbols w' = syms
       \<and> liquidationDue cfg syms account'
       \<and> a_positions account' = a_positions account
       \<and> a_pendingSettlements account' = a_pendingSettlements account
       \<and> a_settledCash account' = a_settledCash account
       \<and> roundMoney (a_feesDue account') = a_feesDue account'"
proof -
  from liquidationDue_loop [OF due] obtain l s mv
    where loop: "metricsLoop syms (a_positions account) (0, 0, 0) = Inr (l, s, mv)" by blast
  from metricsLoop_peeks [OF loop, of 0] obtain sv
    where sv: "shortValueLoop syms (a_positions account) 0 = Inr sv" by blast
  define today where "today = toIsoDate (clock pf (w_clockReads w))"
  define days where "days = countDays (a_lastBorrowFeeDate account) today"
  define bf where "bf = roundMoney (sv * shortBorrowDailyRate cfg * real_of_int days)"
  define w' where "w' = w\<lparr>w_clockReads := Suc (w_clockReads w)\<rparr>"
  define account' where "account' =
     (if a_lastBorrowFeeDate account = today then account
      else if days \<le> 0 then account\<lparr>a_lastBorrowFeeDate := today\<rparr>
      else (if bf > 0 then account\<lparr>a_feesDue := roundMoney (a_feesDue account + bf)\<rparr> else account)
             \<lparr>a_lastBorrowFeeDate := today\<rparr>)"
  have r: "applyBorrowFeesIfNeeded cfg pf (w, account) = Inr (w', account')"
    using sv ws
    by (simp add: applyBorrowFeesIfNeeded_def newDate_def Let_def today_def [symmetric]
        days_def [symmetric] bf_def [symmetric] w'_def account'_def)
  have p: "a_positions account' = a_positions account"
    and q: "a_pendingSettlements account' = a_pendingSettlements account"
    and c: "a_settledCash account' = a_settledCash account"
    and u: "a_unsettledCash account' = a_unsettledCash account"
    by (simp_all add: account'_def)
  have g: "roundMoney (a_feesDue account') = a_feesDue account'"
    using fees by (simp add: account'_def roundMoney_idem)
  have up: "a_feesDue account \<le> a_feesDue account'"
  proof -
    have "a_feesDue account \<le> roundMoney (a_feesDue account + bf)" if "bf > 0"
      using roundMoney_mono [of "a_feesDue account" "a_feesDue account + bf"] that fees by simp
    then show ?thesis by (simp add: account'_def)
  qed
  have loop': "metricsLoop syms (a_positions account') (0, 0, 0) = Inr (l, s, mv)"
    unfolding p by (rule loop)
  have "roundMoney (a_settledCash account' + a_unsettledCash account' + mv - a_feesDue account')
      \<le> roundMoney (a_settledCash account + a_unsettledCash account + mv - a_feesDue account)"
    using up by (intro roundMoney_mono) (simp add: c u)
  then have d: "liquidationDue cfg syms account'"
    using due unfolding liquidationDue_iff [OF loop'] liquidationDue_iff [OF loop] by linarith
  from r p q c g d show ?thesis by (auto simp: w'_def ws)
qed


lemma placeOrder_with_None:
  "refresh wa = None \<Longrightarrow> placeOrder_with refresh cfg pf rawOrder wa = None"
  by (simp add: placeOrder_with_def)

lemma forceLiquidateLargestPosition_None:
  assumes "\<And>rawOrder. place rawOrder (w, account) = None"
    and "a_positions account \<noteq> []"
    and "withValueLoop (w_symbols w) (a_positions account) = Inr withValue"
    and "length withValue = length (a_positions account)"
  shows "forceLiquidateLargestPosition place (w, account) = None"
proof -
  have "length (sort_key (\<lambda>x. - snd x) withValue) = length (a_positions account)"
    using assms(4) by simp
  then obtain first rest where "sort_key (\<lambda>x. - snd x) withValue = first # rest"
    using assms(2) by (cases "sort_key (\<lambda>x. - snd x) withValue") auto
  then show ?thesis
    using assms(1,2,3) by (simp add: forceLiquidateLargestPosition_def Let_def)
qed

lemma withValueLoop_values:
  "withValueLoop syms ps = Inr withValue \<Longrightarrow>
     withValue = map (\<lambda>(k, p). (p, \<bar>p_quantity p * midOf syms (p_symbol p)\<bar>)) ps"
proof (induction ps arbitrary: withValue)
  case Nil
  then show ?case by simp
next
  case (Cons kp ps)
  obtain k p where kp: "kp = (k, p)" by (cases kp)
  from Cons.prems obtain q syms' others where pq: "peekQuote syms (p_symbol p) = Inr (q, syms')"
    and r: "withValueLoop syms ps = Inr others"
    and w: "withValue = (p, \<bar>p_quantity p * q_mid q\<bar>) # others"
    by (auto simp: kp split: sum.splits)
  from pq have "midOf syms (p_symbol p) = q_mid q" by (simp add: midOf_def)
  with Cons.IH [OF r] w show ?case by (simp add: kp)
qed

text \<open>
  What \<open>#forceLiquidateLargestPosition\<close> does with the \<open>placeOrder\<close> it is given: one
  MARKET IOC order with the bypass flag, for the whole of a position whose
  \<open>|quantity * mid|\<close> no other position exceeds, on the opposite side; and the marker
  when that order comes back REJECTED.
\<close>

lemma forceLiquidateLargestPosition_submits:
  assumes "a_positions account \<noteq> []"
    and "withValueLoop (w_symbols w) (a_positions account) = Inr withValue"
  shows "\<exists>target absValue.
      (target, absValue) \<in> set withValue
    \<and> (\<forall>x \<in> set withValue. snd x \<le> absValue)
    \<and> forceLiquidateLargestPosition place (w, account) =
        (case place \<lparr>r_symbol = p_symbol target, r_type = ''MARKET'',
                      r_side = (if p_quantity target > 0 then ''SELL'' else ''BUY_TO_COVER''),
                      r_tif = ''IOC'', r_quantity = Num \<bar>p_quantity target\<bar>,
                      r_limitPrice = Null, r_stopPrice = Null,
                      r_bypassMarginCheck = True\<rparr> (w, account) of
           None \<Rightarrow> None
         | Some (Inl e) \<Rightarrow> Some (Inl e)
         | Some (Inr (forced, w1, account1)) \<Rightarrow>
             if o_status forced = REJECTED then
               Some (Inr (w1, account1\<lparr>a_orders :=
                  \<lparr>o_id = MARGINCALL, o_accountId = a_id account1,
                   o_symbol = p_symbol target, o_type = ''MARKET'',
                   o_side = (if p_quantity target > 0 then ''SELL'' else ''BUY_TO_COVER''),
                   o_tif = ''IOC'', o_quantity = Num \<bar>p_quantity target\<bar>,
                   o_limitPrice = Null, o_stopPrice = Null, o_status = REJECTED,
                   o_reason = Some ''margin_call_forced_liquidation_failed'',
                   o_fillPrice = None, o_fees = 0,
                   o_triggerState = None, o_effectiveType = None\<rparr> # a_orders account1\<rparr>))
             else Some (Inr (w1, account1)))"
proof -
  let ?sorted = "sort_key (\<lambda>x. - snd x) withValue"
  have "withValue \<noteq> []"
    using withValueLoop_values [OF assms(2)] assms(1) by simp
  then have "?sorted \<noteq> []"
    by (metis length_sort length_0_conv)
  then obtain first rest where fr: "?sorted = first # rest"
    by (cases ?sorted) auto
  have "sorted (map (\<lambda>x. - snd x) ?sorted)" by (rule sorted_sort_key)
  then have le: "\<forall>x \<in> set ?sorted. snd x \<le> snd first"
    unfolding fr by auto
  have mem: "first \<in> set withValue"
    using fr by (metis list.set_intros(1) set_sort)
  have all: "\<forall>x \<in> set withValue. snd x \<le> snd first"
    using le by simp
  have "forceLiquidateLargestPosition place (w, account) =
        (case place \<lparr>r_symbol = p_symbol (fst first), r_type = ''MARKET'',
                      r_side = (if p_quantity (fst first) > 0 then ''SELL'' else ''BUY_TO_COVER''),
                      r_tif = ''IOC'', r_quantity = Num \<bar>p_quantity (fst first)\<bar>,
                      r_limitPrice = Null, r_stopPrice = Null,
                      r_bypassMarginCheck = True\<rparr> (w, account) of
           None \<Rightarrow> None
         | Some (Inl e) \<Rightarrow> Some (Inl e)
         | Some (Inr (forced, w1, account1)) \<Rightarrow>
             if o_status forced = REJECTED then
               Some (Inr (w1, account1\<lparr>a_orders :=
                  \<lparr>o_id = MARGINCALL, o_accountId = a_id account1,
                   o_symbol = p_symbol (fst first), o_type = ''MARKET'',
                   o_side = (if p_quantity (fst first) > 0 then ''SELL'' else ''BUY_TO_COVER''),
                   o_tif = ''IOC'', o_quantity = Num \<bar>p_quantity (fst first)\<bar>,
                   o_limitPrice = Null, o_stopPrice = Null, o_status = REJECTED,
                   o_reason = Some ''margin_call_forced_liquidation_failed'',
                   o_fillPrice = None, o_fees = 0,
                   o_triggerState = None, o_effectiveType = None\<rparr> # a_orders account1\<rparr>))
             else Some (Inr (w1, account1)))"
    using assms fr
    by (simp add: forceLiquidateLargestPosition_def Let_def
        split: option.splits sum.splits prod.splits)
  with mem all show ?thesis
    by (intro exI [of _ "fst first"] exI [of _ "snd first"]) simp
qed

text \<open>
  C5. With forced liquidation enabled, on an account that holds a position, has no
  pending settlement and is below maintenance, a refresh does not return: it calls
  \<open>#forceLiquidateLargestPosition\<close>, whose internal \<open>placeOrder\<close> starts with a refresh
  of the same account, which finds the same deficiency and liquidates again, and so on at
  every depth. The bypass flag is looked at after that refresh only. No internal order
  ever comes back, neither FILLED nor REJECTED, and \<open>getAccount\<close> and \<open>placeOrder\<close> on
  such an account do not return either. (The cash balances are taken to be 6-decimal
  values, as every write of the program leaves them.)
\<close>

theorem refreshAccount_liquidation_never_returns:
  assumes "forceLiquidationEnabled cfg"
    and "liquidationDue cfg (w_symbols w) account"
    and "a_positions account \<noteq> []"
    and "a_pendingSettlements account = []"
    and "roundMoney (a_settledCash account) = a_settledCash account"
    and "roundMoney (a_feesDue account) = a_feesDue account"
  shows "refreshAccount depth cfg pf (w, account) = None
       \<and> getAccount depth cfg pf (w, account) = None
       \<and> placeOrder depth cfg pf rawOrder (w, account) = None"
proof -
  have never: "refreshAccount depth cfg pf (w, account) = None"
    using assms(2-6)
  proof (induction depth arbitrary: w account)
    case 0
    show ?case by simp
  next
    case (Suc depth)
    define now where "now = clock pf (w_clockReads w)"
    define w1 where "w1 = w\<lparr>w_clockReads := Suc (w_clockReads w)\<rparr>"
    define account1 where "account1 = settleDueEntries now account"
    note s = settle_keeps_due [OF Suc.prems(1,3,4,5), of now, folded account1_def]
    have ws1: "w_symbols w1 = w_symbols w" by (simp add: w1_def)
    have f1: "roundMoney (a_feesDue account1) = a_feesDue account1"
      using s(5) Suc.prems(5) by (auto simp: roundMoney_0)
    from borrow_keeps_due [OF s(1) ws1 f1, of pf]
    obtain w2 account2 where b: "applyBorrowFeesIfNeeded cfg pf (w1, account1) = Inr (w2, account2)"
      "w_symbols w2 = w_symbols w" "liquidationDue cfg (w_symbols w) account2"
      "a_positions account2 = a_positions account1"
      "a_pendingSettlements account2 = a_pendingSettlements account1"
      "a_settledCash account2 = a_settledCash account1"
      "roundMoney (a_feesDue account2) = a_feesDue account2"
      by blast
    have due2: "liquidationDue cfg (w_symbols w2) account2" using b(2,3) by simp
    have p2: "a_positions account2 \<noteq> []" using b(4) s(2) Suc.prems(2) by simp
    have q2: "a_pendingSettlements account2 = []" using b(5) s(3) by simp
    have c2: "roundMoney (a_settledCash account2) = a_settledCash account2" using b(6) s(4) by simp
    have ih: "refreshAccount depth cfg pf (w2, account2) = None"
      by (rule Suc.IH [OF due2 p2 q2 c2 b(7)])
    from due2 obtain metrics where m: "computeMetrics cfg (w_symbols w2) account2 = Inr metrics"
      "hasMaintenanceDeficiency metrics"
      by (auto simp: liquidationDue_def split: sum.splits)
    from liquidationDue_loop [OF due2] obtain l sv mv
      where "metricsLoop (w_symbols w2) (a_positions account2) (0, 0, 0) = Inr (l, sv, mv)" by blast
    from metricsLoop_peeks [OF this, of 0] obtain withValue
      where wv: "withValueLoop (w_symbols w2) (a_positions account2) = Inr withValue"
        "length withValue = length (a_positions account2)" by blast
    have "placeOrder_with (refreshAccount depth cfg pf) cfg pf rawOrder (w2, account2) = None"
      for rawOrder
      using ih by (simp add: placeOrder_with_def)
    then have "forceLiquidateLargestPosition (placeOrder_with (refreshAccount depth cfg pf) cfg pf)
            (w2, account2) = None"
      using p2 wv by (rule forceLiquidateLargestPosition_None)
    then show ?case
      using b(1) m assms(1)
      by (simp add: newDate_def Let_def now_def [symmetric] w1_def [symmetric] account1_def [symmetric])
  qed
  then show ?thesis
    by (simp add: getAccount_def placeOrder_def placeOrder_with_def)
qed

theorem refreshAccount_liquidation_never_returns_witness:
  "\<forall>depth. refreshAccount depth (exampleConfig\<lparr>forceLiquidationEnabled := True\<rparr>) examplePlatform
              (marginCallWorld, marginCallAccount) = None
          \<and> getAccount depth (exampleConfig\<lparr>forceLiquidationEnabled := True\<rparr>) examplePlatform
              (marginCallWorld, marginCallAccount) = None"
proof
  fix depth
  define cfg where "cfg = exampleConfig\<lparr>forceLiquidationEnabled := True\<rparr>"
  have 1: "forceLiquidationEnabled cfg"
    by (simp add: cfg_def)
  have 2: "liquidationDue cfg (w_symbols marginCallWorld) marginCallAccount"
    by (simp add: liquidationDue_def computeMetrics_def calculateMarginRequirements_def
        hasMaintenanceDeficiency_def peekQuote_def quote_def cfg_def exampleConfig_def
        marginCallWorld_def marginCallAccount_def exampleAccount_def roundMoney_def Let_def)
  have 3: "a_positions marginCallAccount \<noteq> []"
    and 4: "a_pendingSettlements marginCallAccount = []"
    and 5: "roundMoney (a_settledCash marginCallAccount) = a_settledCash marginCallAccount"
    and 6: "roundMoney (a_feesDue marginCallAccount) = a_feesDue marginCallAccount"
    by (simp_all add: marginCallAccount_def exampleAccount_def roundMoney_def)
  from refreshAccount_liquidation_never_returns [OF 1 2 3 4 5 6, of depth examplePlatform]
  show "refreshAccount depth (exampleConfig\<lparr>forceLiquidationEnabled := True\<rparr>) examplePlatform
              (marginCallWorld, marginCallAccount) = None
          \<and> getAccount depth (exampleConfig\<lparr>forceLiquidationEnabled := True\<rparr>) examplePlatform
              (marginCallWorld, marginCallAccount) = None"
    unfolding cfg_def by blast
qed

end
